theory Spec2Isabelle
  imports Complex_Main
begin

section \<open>The audio graph of the synthesizer components\<close>

text \<open>
  The repository holds two variants of the synthesizer component. Both keep twelve
  module-level variables (\<open>synth\<close>, the eight effects, \<open>panner\<close>, \<open>gainNode\<close>,
  \<open>meter\<close>), each either \<open>null\<close> or a node of the audio library.

  \<^item> The recreate variant (src/unnamed/part_000): \<open>initializeAudioChain\<close> disposes every
    node, constructs twelve new ones and connects them; it runs on mount and on every
    enable/disable toggle.
  \<^item> The reconnect variant (src/plugins/tone.client.ts, second document):
    \<open>createAudioNodes\<close> runs once on mount, \<open>updateAudioChain\<close> disconnects and
    reconnects the same nodes on every toggle.

  The audio library itself is not part of the repository. Its nodes are modelled by what
  the components do with them: a node is constructed, gets parameters assigned, is
  connected to another node or to the destination, is disconnected from all its outputs,
  and is disposed. JavaScript numbers are modelled as real numbers.
\<close>

subsection \<open>Nodes, connections and the library's operations\<close>

datatype pval = Num real | Str string

datatype sink = ToNode nat | ToDestination

record tone_node =
  cls :: string
  wasDisposed :: bool
  param :: "string \<Rightarrow> pval option"

text \<open>
  The graph: a counter for fresh node identities, the nodes constructed so far, and the
  set of connections. A parameter that was never assigned is absent from \<open>param\<close>
  (the library's default applies).
\<close>

record graph =
  nextId :: nat
  heap :: "nat \<Rightarrow> tone_node option"
  conns :: "(nat \<times> sink) set"

definition new_node ::
  "string \<Rightarrow> (string \<times> pval) list \<Rightarrow> 'a graph_scheme \<Rightarrow> nat \<times> 'a graph_scheme" where
  "new_node c ps g =
     (nextId g,
      g\<lparr>nextId := Suc (nextId g),
        heap := (heap g)(nextId g \<mapsto> \<lparr>cls = c, wasDisposed = False, param = map_of ps\<rparr>)\<rparr>)"

definition disconnect :: "nat \<Rightarrow> 'a graph_scheme \<Rightarrow> 'a graph_scheme" where
  "disconnect n g = g\<lparr>conns := {e \<in> conns g. fst e \<noteq> n}\<rparr>"

definition dispose :: "nat \<Rightarrow> 'a graph_scheme \<Rightarrow> 'a graph_scheme" where
  "dispose n g =
     (disconnect n g)\<lparr>heap :=
        (case heap g n of
           None \<Rightarrow> heap g
         | Some nd \<Rightarrow> (heap g)(n \<mapsto> nd\<lparr>wasDisposed := True\<rparr>))\<rparr>"

definition connect :: "nat \<Rightarrow> nat \<Rightarrow> 'a graph_scheme \<Rightarrow> 'a graph_scheme" where
  "connect a b g = g\<lparr>conns := insert (a, ToNode b) (conns g)\<rparr>"

definition toDestination :: "nat \<Rightarrow> 'a graph_scheme \<Rightarrow> 'a graph_scheme" where
  "toDestination a g = g\<lparr>conns := insert (a, ToDestination) (conns g)\<rparr>"

definition set_param :: "nat \<Rightarrow> string \<Rightarrow> pval \<Rightarrow> 'a graph_scheme \<Rightarrow> 'a graph_scheme" where
  "set_param n name v g =
     g\<lparr>heap :=
        (case heap g n of
           None \<Rightarrow> heap g
         | Some nd \<Rightarrow> (heap g)(n \<mapsto> nd\<lparr>param := (param nd)(name \<mapsto> v)\<rparr>))\<rparr>"

fun connectSeries :: "nat list \<Rightarrow> 'a graph_scheme \<Rightarrow> 'a graph_scheme" where
  "connectSeries (a # b # rest) g = connectSeries (b # rest) (connect a b g)"
| "connectSeries [a] g = g"
| "connectSeries [] g = g"

text \<open>Optional chaining: \<open>node?.dispose()\<close> and \<open>node?.disconnect()\<close> do nothing on \<open>null\<close>.\<close>

definition dispose_opt :: "nat option \<Rightarrow> 'a graph_scheme \<Rightarrow> 'a graph_scheme" where
  "dispose_opt h g = (case h of None \<Rightarrow> g | Some n \<Rightarrow> dispose n g)"

definition disconnect_opt :: "nat option \<Rightarrow> 'a graph_scheme \<Rightarrow> 'a graph_scheme" where
  "disconnect_opt h g = (case h of None \<Rightarrow> g | Some n \<Rightarrow> disconnect n g)"

definition live :: "'a graph_scheme \<Rightarrow> nat set" where
  "live g = {n. case heap g n of None \<Rightarrow> False | Some nd \<Rightarrow> \<not> wasDisposed nd}"

definition param_of :: "'a graph_scheme \<Rightarrow> nat \<Rightarrow> string \<Rightarrow> pval option" where
  "param_of g n name = (case heap g n of None \<Rightarrow> None | Some nd \<Rightarrow> param nd name)"

subsection \<open>The component state\<close>

text \<open>
  The envelope. The component state holds real numbers; the envelope editor below holds
  JavaScript numbers with their special values.
\<close>

record 'n envelope_t =
  attack :: 'n
  hold :: 'n
  decay :: 'n
  sustain :: 'n
  release :: 'n

text \<open>
  The reactive values and the node variables of a component. The recreate variant holds
  one reactive value per field (\<open>filterFreq\<close>, \<open>delayWet\<close>, ...); the reconnect variant
  groups the same fields in one object per effect (\<open>filterProps.freq\<close> is \<open>filterFreq\<close>,
  \<open>delayProps.wet\<close> is \<open>delayWet\<close>, \<open>distortionProps.amount\<close> is \<open>distortionAmount\<close>,
  and so on). The variable \<open>filter\<close> is named \<open>filter_node\<close>.
\<close>

record state = graph +
  oscillatorType :: string
  envelope :: "real envelope_t"
  gainValue :: real
  panValue :: real
  normalized :: real
  filterEnabled :: bool
  filterType :: string
  filterFreq :: real
  filterQ :: real
  distortionEnabled :: bool
  distortionAmount :: real
  reverbEnabled :: bool
  reverbWet :: real
  reverbRoomSize :: real
  delayEnabled :: bool
  delayTime :: real
  delayFeedback :: real
  delayWet :: real
  chorusEnabled :: bool
  chorusFreq :: real
  chorusDepth :: real
  chorusWet :: real
  phaserEnabled :: bool
  phaserFreq :: real
  phaserDepth :: real
  phaserWet :: real
  bitCrusherEnabled :: bool
  bitCrusherBits :: real
  bitCrusherWet :: real
  compressorEnabled :: bool
  compressorThreshold :: real
  compressorRatio :: real
  synth :: "nat option"
  filter_node :: "nat option"
  distortion :: "nat option"
  bitCrusher :: "nat option"
  delay :: "nat option"
  chorus :: "nat option"
  phaser :: "nat option"
  reverb :: "nat option"
  compressor :: "nat option"
  panner :: "nat option"
  gainNode :: "nat option"
  meter :: "nat option"

definition envelope_params :: "real envelope_t \<Rightarrow> (string \<times> pval) list" where
  "envelope_params e =
     [(''envelope.attack'', Num (attack e)), (''envelope.hold'', Num (hold e)),
      (''envelope.decay'', Num (decay e)), (''envelope.sustain'', Num (sustain e)),
      (''envelope.release'', Num (release e))]"

text \<open>The node variables, in the order in which both variants dispose them.\<close>

definition handles :: "state \<Rightarrow> nat option list" where
  "handles s =
     [synth s, filter_node s, distortion s, bitCrusher s, delay s, chorus s, phaser s,
      reverb s, compressor s, panner s, gainNode s, meter s]"

subsection \<open>The recreate variant (src/unnamed/part\_000)\<close>

text \<open>
  \<open>initializeAudioChain\<close> consists of three blocks, in this order: "Clean up existing
  nodes", "Create synth" and "Create effects chain", and "Connect chain". Each block is
  one definition; the construction block hands the nodes it has just assigned to the
  twelve variables to the connection block.
\<close>

definition disposeNodes :: "state \<Rightarrow> state" where
  "disposeNodes s = fold dispose_opt (handles s) s"

type_synonym nodes =
  "nat \<times> nat \<times> nat \<times> nat \<times> nat \<times> nat \<times> nat \<times> nat \<times> nat \<times> nat \<times> nat \<times> nat"

definition constructNodes :: "state \<Rightarrow> nodes \<times> state" where
  "constructNodes s0 =
     (let (synthN, s) = new_node ''PolySynth''
             ((''oscillator.type'', Str (oscillatorType s0)) # envelope_params (envelope s0)) s0;
          s = s\<lparr>synth := Some synthN\<rparr>;
          (filterN, s) = new_node ''Filter''
             [(''frequency'', Num (filterFreq s)), (''type'', Str (filterType s))] s;
          s = s\<lparr>filter_node := Some filterN\<rparr>;
          (distortionN, s) = new_node ''Distortion''
             [(''distortion'', Num (distortionAmount s))] s;
          s = s\<lparr>distortion := Some distortionN\<rparr>;
          (bitCrusherN, s) = new_node ''BitCrusher'' [(''bits'', Num (bitCrusherBits s))] s;
          s = s\<lparr>bitCrusher := Some bitCrusherN\<rparr>;
          (delayN, s) = new_node ''FeedbackDelay''
             [(''delayTime'', Num (delayTime s)), (''feedback'', Num (delayFeedback s))] s;
          s = s\<lparr>delay := Some delayN\<rparr>;
          (chorusN, s) = new_node ''Chorus''
             [(''frequency'', Num (chorusFreq s)), (''delayTime'', Num (chorusDepth s)),
              (''depth'', Num 0.5)] s;
          s = s\<lparr>chorus := Some chorusN\<rparr>;
          (phaserN, s) = new_node ''Phaser''
             [(''frequency'', Num (phaserFreq s)), (''baseFrequency'', Num 1000)] s;
          s = s\<lparr>phaser := Some phaserN\<rparr>;
          (reverbN, s) = new_node ''Reverb'' [(''decay'', Num (reverbRoomSize s))] s;
          s = s\<lparr>reverb := Some reverbN\<rparr>;
          (compressorN, s) = new_node ''Compressor''
             [(''threshold'', Num (compressorThreshold s)),
              (''ratio'', Num (compressorRatio s))] s;
          s = s\<lparr>compressor := Some compressorN\<rparr>;
          (pannerN, s) = new_node ''Panner'' [(''pan'', Num (panValue s))] s;
          s = s\<lparr>panner := Some pannerN\<rparr>;
          (gainN, s) = new_node ''Gain'' [(''gain'', Num (gainValue s))] s;
          s = s\<lparr>gainNode := Some gainN\<rparr>;
          (meterN, s) = new_node ''Meter'' [(''smoothing'', Num 0.8)] s;
          s = s\<lparr>meter := Some meterN\<rparr>
      in ((synthN, filterN, distortionN, bitCrusherN, delayN, chorusN, phaserN, reverbN,
           compressorN, pannerN, gainN, meterN), s))"

definition connectNodes :: "nodes \<Rightarrow> state \<Rightarrow> state" where
  "connectNodes ns s0 =
     (let (synthN, filterN, distortionN, bitCrusherN, delayN, chorusN, phaserN, reverbN,
           compressorN, pannerN, gainN, meterN) = ns;
          (currentNode, s) = (synthN, s0);
          (currentNode, s) =
             (if filterEnabled s then (filterN, connect currentNode filterN s)
              else (currentNode, s));
          (currentNode, s) =
             (if distortionEnabled s then (distortionN, connect currentNode distortionN s)
              else (currentNode, s));
          (currentNode, s) =
             (if bitCrusherEnabled s then (bitCrusherN, connect currentNode bitCrusherN s)
              else (currentNode, s));
          (currentNode, s) =
             (if delayEnabled s
              then (delayN,
                    connect currentNode delayN (set_param delayN ''wet'' (Num (delayWet s)) s))
              else (currentNode, s));
          (currentNode, s) =
             (if chorusEnabled s
              then (chorusN,
                    connect currentNode chorusN (set_param chorusN ''wet'' (Num (chorusWet s)) s))
              else (currentNode, s));
          (currentNode, s) =
             (if phaserEnabled s
              then (phaserN,
                    connect currentNode phaserN (set_param phaserN ''wet'' (Num (phaserWet s)) s))
              else (currentNode, s));
          (currentNode, s) =
             (if reverbEnabled s
              then (reverbN,
                    connect currentNode reverbN (set_param reverbN ''wet'' (Num (reverbWet s)) s))
              else (currentNode, s));
          (currentNode, s) =
             (if compressorEnabled s then (compressorN, connect currentNode compressorN s)
              else (currentNode, s));
          s = connect currentNode pannerN s;
          s = connect pannerN gainN s;
          s = connect gainN meterN s
      in toDestination gainN s)"

definition initializeAudioChain :: "state \<Rightarrow> state" where
  "initializeAudioChain s0 =
     (let s = disposeNodes s0;
          (ns, s) = constructNodes s
      in connectNodes ns s)"

text \<open>On mount the chain is initialized; every enable/disable toggle initializes it again.\<close>

definition onMounted_recreate :: "state \<Rightarrow> state" where
  "onMounted_recreate s = initializeAudioChain s"

text \<open>
  The parameter watchers of the recreate variant: each callback receives the new value and
  assigns it to one field of one node, when the node variable is not \<open>null\<close>.
\<close>

datatype param_update =
    FilterFreq real | FilterQ real | FilterType string
  | DistortionAmount real | BitCrusherBits real
  | DelayTime real | DelayFeedback real | DelayWet real
  | ChorusFreq real | ChorusDepth real | ChorusWet real
  | PhaserFreq real | PhaserWet real
  | ReverbWet real
  | CompressorThreshold real | CompressorRatio real

definition assign_opt :: "nat option \<Rightarrow> string \<Rightarrow> pval \<Rightarrow> state \<Rightarrow> state" where
  "assign_opt h name v s = (case h of None \<Rightarrow> s | Some n \<Rightarrow> set_param n name v s)"

fun watch :: "param_update \<Rightarrow> state \<Rightarrow> state" where
  "watch (FilterFreq val) s = assign_opt (filter_node s) ''frequency'' (Num val) s"
| "watch (FilterQ val) s = assign_opt (filter_node s) ''Q'' (Num val) s"
| "watch (FilterType val) s = assign_opt (filter_node s) ''type'' (Str val) s"
| "watch (DistortionAmount val) s = assign_opt (distortion s) ''distortion'' (Num val) s"
| "watch (BitCrusherBits val) s = assign_opt (bitCrusher s) ''bits'' (Num val) s"
| "watch (DelayTime val) s = assign_opt (delay s) ''delayTime'' (Num val) s"
| "watch (DelayFeedback val) s = assign_opt (delay s) ''feedback'' (Num val) s"
| "watch (DelayWet val) s = assign_opt (delay s) ''wet'' (Num val) s"
| "watch (ChorusFreq val) s = assign_opt (chorus s) ''frequency'' (Num val) s"
| "watch (ChorusDepth val) s = assign_opt (chorus s) ''depth'' (Num val) s"
| "watch (ChorusWet val) s = assign_opt (chorus s) ''wet'' (Num val) s"
| "watch (PhaserFreq val) s = assign_opt (phaser s) ''frequency'' (Num val) s"
| "watch (PhaserWet val) s = assign_opt (phaser s) ''wet'' (Num val) s"
| "watch (ReverbWet val) s = assign_opt (reverb s) ''wet'' (Num val) s"
| "watch (CompressorThreshold val) s = assign_opt (compressor s) ''threshold'' (Num val) s"
| "watch (CompressorRatio val) s = assign_opt (compressor s) ''ratio'' (Num val) s"

text \<open>The node variable a watcher tests, the field it assigns and the value it assigns.\<close>

fun watched_node :: "param_update \<Rightarrow> state \<Rightarrow> nat option" where
  "watched_node (FilterFreq val) s = filter_node s"
| "watched_node (FilterQ val) s = filter_node s"
| "watched_node (FilterType val) s = filter_node s"
| "watched_node (DistortionAmount val) s = distortion s"
| "watched_node (BitCrusherBits val) s = bitCrusher s"
| "watched_node (DelayTime val) s = delay s"
| "watched_node (DelayFeedback val) s = delay s"
| "watched_node (DelayWet val) s = delay s"
| "watched_node (ChorusFreq val) s = chorus s"
| "watched_node (ChorusDepth val) s = chorus s"
| "watched_node (ChorusWet val) s = chorus s"
| "watched_node (PhaserFreq val) s = phaser s"
| "watched_node (PhaserWet val) s = phaser s"
| "watched_node (ReverbWet val) s = reverb s"
| "watched_node (CompressorThreshold val) s = compressor s"
| "watched_node (CompressorRatio val) s = compressor s"

fun watched_field :: "param_update \<Rightarrow> string \<times> pval" where
  "watched_field (FilterFreq val) = (''frequency'', Num val)"
| "watched_field (FilterQ val) = (''Q'', Num val)"
| "watched_field (FilterType val) = (''type'', Str val)"
| "watched_field (DistortionAmount val) = (''distortion'', Num val)"
| "watched_field (BitCrusherBits val) = (''bits'', Num val)"
| "watched_field (DelayTime val) = (''delayTime'', Num val)"
| "watched_field (DelayFeedback val) = (''feedback'', Num val)"
| "watched_field (DelayWet val) = (''wet'', Num val)"
| "watched_field (ChorusFreq val) = (''frequency'', Num val)"
| "watched_field (ChorusDepth val) = (''depth'', Num val)"
| "watched_field (ChorusWet val) = (''wet'', Num val)"
| "watched_field (PhaserFreq val) = (''frequency'', Num val)"
| "watched_field (PhaserWet val) = (''wet'', Num val)"
| "watched_field (ReverbWet val) = (''wet'', Num val)"
| "watched_field (CompressorThreshold val) = (''threshold'', Num val)"
| "watched_field (CompressorRatio val) = (''ratio'', Num val)"

subsection \<open>The reconnect variant (src/plugins/tone.client.ts)\<close>

text \<open>
  \<open>createAudioNodes\<close> constructs the twelve nodes once and assigns the initial \<open>wet\<close>
  values; it disposes nothing.
\<close>

definition createAudioNodes :: "state \<Rightarrow> state" where
  "createAudioNodes s0 =
     (let (n, s) = new_node ''PolySynth''
             ((''oscillator.type'', Str (oscillatorType s0)) # envelope_params (envelope s0)) s0;
          s = s\<lparr>synth := Some n\<rparr>;
          (n, s) = new_node ''Panner'' [(''pan'', Num (panValue s))] s;
          s = s\<lparr>panner := Some n\<rparr>;
          (n, s) = new_node ''Gain'' [(''gain'', Num (gainValue s))] s;
          s = s\<lparr>gainNode := Some n\<rparr>;
          (n, s) = new_node ''Meter'' [(''smoothing'', Num 0.8)] s;
          s = s\<lparr>meter := Some n\<rparr>;
          (n, s) = new_node ''Filter''
             [(''frequency'', Num (filterFreq s)), (''type'', Str (filterType s))] s;
          s = s\<lparr>filter_node := Some n\<rparr>;
          (n, s) = new_node ''Distortion'' [(''distortion'', Num (distortionAmount s))] s;
          s = s\<lparr>distortion := Some n\<rparr>;
          (n, s) = new_node ''BitCrusher'' [(''bits'', Num (bitCrusherBits s))] s;
          s = s\<lparr>bitCrusher := Some n\<rparr>;
          (n, s) = new_node ''FeedbackDelay''
             [(''delayTime'', Num (delayTime s)), (''feedback'', Num (delayFeedback s))] s;
          s = s\<lparr>delay := Some n\<rparr>;
          (n, s) = new_node ''Chorus''
             [(''frequency'', Num (chorusFreq s)), (''delayTime'', Num (chorusDepth s)),
              (''depth'', Num 0.5)] s;
          s = s\<lparr>chorus := Some n\<rparr>;
          (n, s) = new_node ''Phaser''
             [(''frequency'', Num (phaserFreq s)), (''octaves'', Num (phaserDepth s)),
              (''baseFrequency'', Num 1000)] s;
          s = s\<lparr>phaser := Some n\<rparr>;
          (n, s) = new_node ''Reverb'' [(''decay'', Num (reverbRoomSize s))] s;
          s = s\<lparr>reverb := Some n\<rparr>;
          (n, s) = new_node ''Compressor''
             [(''threshold'', Num (compressorThreshold s)),
              (''ratio'', Num (compressorRatio s))] s;
          s = s\<lparr>compressor := Some n\<rparr>;
          s = assign_opt (delay s) ''wet'' (Num (delayWet s)) s;
          s = assign_opt (chorus s) ''wet'' (Num (chorusWet s)) s;
          s = assign_opt (phaser s) ''wet'' (Num (phaserWet s)) s
      in assign_opt (reverb s) ''wet'' (Num (reverbWet s)) s)"

text \<open>
  \<open>updateAudioChain\<close> returns at once when \<open>synth\<close>, \<open>panner\<close> or \<open>gainNode\<close> is
  \<open>null\<close>. Otherwise it disconnects the synth, every effect that is not \<open>null\<close>, the
  panner and the gain; collects the enabled effects that are not \<open>null\<close> in the written
  order; connects the series; and connects the gain to the meter and to the destination.
  The meter is passed with a non-null assertion: connecting to \<open>null\<close> throws.
\<close>

datatype error = ConnectToNull

definition node_list :: "bool \<Rightarrow> nat option \<Rightarrow> nat list" where
  "node_list enabled h = (if enabled then (case h of None \<Rightarrow> [] | Some n \<Rightarrow> [n]) else [])"

definition updateAudioChain :: "state \<Rightarrow> error + state" where
  "updateAudioChain s0 =
     (case synth s0 of None \<Rightarrow> Inr s0 | Some synthN \<Rightarrow>
     (case panner s0 of None \<Rightarrow> Inr s0 | Some pannerN \<Rightarrow>
     (case gainNode s0 of None \<Rightarrow> Inr s0 | Some gainN \<Rightarrow>
        (let s = disconnect synthN s0;
             s = fold disconnect_opt
                   [filter_node s, distortion s, bitCrusher s, delay s, chorus s, phaser s,
                    reverb s, compressor s] s;
             s = disconnect pannerN s;
             s = disconnect gainN s;
             activeEffects =
                 node_list (filterEnabled s) (filter_node s)
               @ node_list (distortionEnabled s) (distortion s)
               @ node_list (bitCrusherEnabled s) (bitCrusher s)
               @ node_list (delayEnabled s) (delay s)
               @ node_list (chorusEnabled s) (chorus s)
               @ node_list (phaserEnabled s) (phaser s)
               @ node_list (reverbEnabled s) (reverb s)
               @ node_list (compressorEnabled s) (compressor s);
             chain = synthN # activeEffects @ [pannerN, gainN];
             s = connectSeries chain s
         in (case meter s of
               None \<Rightarrow> Inl ConnectToNull
             | Some meterN \<Rightarrow> Inr (toDestination gainN (connect gainN meterN s)))))))"

definition onMounted_reconnect :: "state \<Rightarrow> error + state" where
  "onMounted_reconnect s = updateAudioChain (createAudioNodes s)"

text \<open>
  The consolidated watchers of the reconnect variant: one deep watcher per effect object,
  assigning every field of the object to the node when the node variable is not \<open>null\<close>.
\<close>

datatype kind =
  FilterK | DistortionK | BitCrusherK | DelayK | ChorusK | PhaserK | ReverbK | CompressorK

fun watchProps :: "kind \<Rightarrow> state \<Rightarrow> state" where
  "watchProps FilterK s =
     (case filter_node s of None \<Rightarrow> s
      | Some n \<Rightarrow> set_param n ''type'' (Str (filterType s))
                   (set_param n ''Q'' (Num (filterQ s))
                   (set_param n ''frequency'' (Num (filterFreq s)) s)))"
| "watchProps DistortionK s =
     (case distortion s of None \<Rightarrow> s
      | Some n \<Rightarrow> set_param n ''distortion'' (Num (distortionAmount s)) s)"
| "watchProps BitCrusherK s =
     (case bitCrusher s of None \<Rightarrow> s
      | Some n \<Rightarrow> set_param n ''bits'' (Num (bitCrusherBits s)) s)"
| "watchProps DelayK s =
     (case delay s of None \<Rightarrow> s
      | Some n \<Rightarrow> set_param n ''wet'' (Num (delayWet s))
                   (set_param n ''feedback'' (Num (delayFeedback s))
                   (set_param n ''delayTime'' (Num (delayTime s)) s)))"
| "watchProps ReverbK s =
     (case reverb s of None \<Rightarrow> s
      | Some n \<Rightarrow> set_param n ''wet'' (Num (reverbWet s))
                   (set_param n ''decay'' (Num (reverbRoomSize s)) s))"
| "watchProps CompressorK s =
     (case compressor s of None \<Rightarrow> s
      | Some n \<Rightarrow> set_param n ''ratio'' (Num (compressorRatio s))
                   (set_param n ''threshold'' (Num (compressorThreshold s)) s))"
| "watchProps ChorusK s =
     (case chorus s of None \<Rightarrow> s
      | Some n \<Rightarrow> set_param n ''wet'' (Num (chorusWet s))
                   (set_param n ''depth'' (Num (chorusDepth s))
                   (set_param n ''frequency'' (Num (chorusFreq s)) s)))"
| "watchProps PhaserK s =
     (case phaser s of None \<Rightarrow> s
      | Some n \<Rightarrow> set_param n ''wet'' (Num (phaserWet s))
                   (set_param n ''octaves'' (Num (phaserDepth s))
                   (set_param n ''frequency'' (Num (phaserFreq s)) s)))"

subsection \<open>Teardown, shared by both variants\<close>

text \<open>
  \<open>onBeforeUnmount\<close> calls \<open>dispose\<close> on each of the twelve variables that is not
  \<open>null\<close>; the variables keep their values.
\<close>

definition onBeforeUnmount :: "state \<Rightarrow> state" where
  "onBeforeUnmount s = fold dispose_opt (handles s) s"

subsection \<open>Effect kinds, toggles and the topology of the chain\<close>

text \<open>
  The fixed order of the effect kinds, as both variants write it, and the reactive flag and
  the node variable of each kind.
\<close>

definition canonical_order :: "kind list" where
  "canonical_order =
     [FilterK, DistortionK, BitCrusherK, DelayK, ChorusK, PhaserK, ReverbK, CompressorK]"

fun enabled_of :: "state \<Rightarrow> kind \<Rightarrow> bool" where
  "enabled_of s FilterK = filterEnabled s"
| "enabled_of s DistortionK = distortionEnabled s"
| "enabled_of s BitCrusherK = bitCrusherEnabled s"
| "enabled_of s DelayK = delayEnabled s"
| "enabled_of s ChorusK = chorusEnabled s"
| "enabled_of s PhaserK = phaserEnabled s"
| "enabled_of s ReverbK = reverbEnabled s"
| "enabled_of s CompressorK = compressorEnabled s"

fun node_of :: "state \<Rightarrow> kind \<Rightarrow> nat option" where
  "node_of s FilterK = filter_node s"
| "node_of s DistortionK = distortion s"
| "node_of s BitCrusherK = bitCrusher s"
| "node_of s DelayK = delay s"
| "node_of s ChorusK = chorus s"
| "node_of s PhaserK = phaser s"
| "node_of s ReverbK = reverb s"
| "node_of s CompressorK = compressor s"

text \<open>The user interface assigns the reactive flag of a kind; the watchers then run.\<close>

fun assign_enabled :: "kind \<Rightarrow> bool \<Rightarrow> state \<Rightarrow> state" where
  "assign_enabled FilterK b s = s\<lparr>filterEnabled := b\<rparr>"
| "assign_enabled DistortionK b s = s\<lparr>distortionEnabled := b\<rparr>"
| "assign_enabled BitCrusherK b s = s\<lparr>bitCrusherEnabled := b\<rparr>"
| "assign_enabled DelayK b s = s\<lparr>delayEnabled := b\<rparr>"
| "assign_enabled ChorusK b s = s\<lparr>chorusEnabled := b\<rparr>"
| "assign_enabled PhaserK b s = s\<lparr>phaserEnabled := b\<rparr>"
| "assign_enabled ReverbK b s = s\<lparr>reverbEnabled := b\<rparr>"
| "assign_enabled CompressorK b s = s\<lparr>compressorEnabled := b\<rparr>"


definition setEnabled_reconnect :: "kind \<Rightarrow> bool \<Rightarrow> state \<Rightarrow> error + state" where
  "setEnabled_reconnect k b s =
     (case updateAudioChain (assign_enabled k b s) of
        Inl e \<Rightarrow> Inl e
      | Inr s' \<Rightarrow> Inr (watchProps k s'))"


fun wet_of :: "state \<Rightarrow> kind \<Rightarrow> real" where
  "wet_of s DelayK = delayWet s"
| "wet_of s ChorusK = chorusWet s"
| "wet_of s PhaserK = phaserWet s"
| "wet_of s ReverbK = reverbWet s"
| "wet_of s k = 1"

fun assign_wet :: "kind \<Rightarrow> real \<Rightarrow> state \<Rightarrow> state" where
  "assign_wet DelayK v s = s\<lparr>delayWet := v\<rparr>"
| "assign_wet ChorusK v s = s\<lparr>chorusWet := v\<rparr>"
| "assign_wet PhaserK v s = s\<lparr>phaserWet := v\<rparr>"
| "assign_wet ReverbK v s = s\<lparr>reverbWet := v\<rparr>"
| "assign_wet k v s = s"




text \<open>
  The nodes held by the variables, the enabled effect nodes in the fixed order, and the
  connections of a series of nodes.
\<close>

definition owned :: "state \<Rightarrow> nat set" where
  "owned s = {n. Some n \<in> set (handles s)}"

definition active_nodes :: "state \<Rightarrow> nat list" where
  "active_nodes s = concat (map (\<lambda>k. node_list (enabled_of s k) (node_of s k)) canonical_order)"

fun series :: "nat list \<Rightarrow> (nat \<times> sink) set" where
  "series (a # b # rest) = insert (a, ToNode b) (series (b # rest))"
| "series [a] = {}"
| "series [] = {}"

definition touched :: "(nat \<times> sink) set \<Rightarrow> nat set" where
  "touched E = fst ` E \<union> {n. \<exists>a. (a, ToNode n) \<in> E}"

text \<open>
  The topology both variants build: the series from the synth through the enabled effects
  to the panner and the gain, and from the gain one connection to the meter and one to the
  destination.
\<close>

definition topology :: "state \<Rightarrow> (nat \<times> sink) set" where
  "topology s =
     (case (synth s, panner s, gainNode s, meter s) of
        (Some synthN, Some pannerN, Some gainN, Some meterN) \<Rightarrow>
          series (synthN # active_nodes s @ [pannerN, gainN])
            \<union> {(gainN, ToNode meterN), (gainN, ToDestination)}
      | _ \<Rightarrow> {})"

text \<open>
  The topology in the specification's words: one series from the sound source through the
  enabled effects, pan, gain and meter to the output.
\<close>

definition series_topology :: "state \<Rightarrow> (nat \<times> sink) set" where
  "series_topology s =
     (case (synth s, panner s, gainNode s, meter s) of
        (Some synthN, Some pannerN, Some gainN, Some meterN) \<Rightarrow>
          series (synthN # active_nodes s @ [pannerN, gainN, meterN])
            \<union> {(meterN, ToDestination)}
      | _ \<Rightarrow> {})"

text \<open>
  What the rebuilds rely on. The recreate variant removes the connections that leave the
  nodes it disposes, so every connection has to leave a node held by a variable. The
  reconnect variant needs the twelve variables to hold twelve different nodes and every
  connection to leave one of the nodes it disconnects (all but the meter).
\<close>

definition sources_owned :: "state \<Rightarrow> bool" where
  "sources_owned s = (fst ` conns s \<subseteq> owned s)"

definition ready :: "state \<Rightarrow> bool" where
  "ready s =
     (None \<notin> set (handles s) \<and> distinct (handles s)
      \<and> fst ` conns s \<subseteq> {n. Some n \<in> set (butlast (handles s))})"

subsection \<open>The initial states\<close>

definition init_recreate :: state where
  "init_recreate =
     \<lparr>nextId = 0, heap = Map.empty, conns = {},
      oscillatorType = ''sine'',
      envelope = \<lparr>attack = 0.1, hold = 0.1, decay = 0.1, sustain = 0.7, release = 0.5\<rparr>,
      gainValue = 0.8, panValue = 0, normalized = 0,
      filterEnabled = False, filterType = ''lowpass'', filterFreq = 2000, filterQ = 1,
      distortionEnabled = False, distortionAmount = 0.4,
      reverbEnabled = False, reverbWet = 0.3, reverbRoomSize = 0.7,
      delayEnabled = False, delayTime = 0.25, delayFeedback = 0.3, delayWet = 0.3,
      chorusEnabled = False, chorusFreq = 4, chorusDepth = 0.5, chorusWet = 0.5,
      phaserEnabled = False, phaserFreq = 0.5, phaserDepth = 10, phaserWet = 0.5,
      bitCrusherEnabled = False, bitCrusherBits = 8, bitCrusherWet = 0.5,
      compressorEnabled = False, compressorThreshold = -20, compressorRatio = 4,
      synth = None, filter_node = None, distortion = None, bitCrusher = None, delay = None,
      chorus = None, phaser = None, reverb = None, compressor = None, panner = None,
      gainNode = None, meter = None\<rparr>"

definition init_reconnect :: state where
  "init_reconnect =
     init_recreate\<lparr>filterQ := 0, chorusFreq := 1, phaserFreq := 1, phaserDepth := 5\<rparr>"

subsection \<open>The level meter\<close>

text \<open>
  Every 50 ms the mounted component reads the meter and stores a gain value in
  \<open>normalized\<close>: \<open>val === -Infinity ? 0 : Tone.dbToGain(val)\<close>. The reading is an input
  of the model: negative infinity or a number of decibels. The library's \<open>dbToGain\<close> is
  \<open>Math.pow(10, db / 20)\<close>.
\<close>

datatype level = NegInfinity | Decibels real

definition dbToGain :: "real \<Rightarrow> real" where
  "dbToGain db = 10 powr (db / 20)"

definition meterTick :: "level \<Rightarrow> state \<Rightarrow> state" where
  "meterTick val s =
     s\<lparr>normalized := (case val of NegInfinity \<Rightarrow> 0 | Decibels db \<Rightarrow> dbToGain db)\<rparr>"

subsection \<open>JavaScript numbers in the envelope editor\<close>










subsection \<open>The envelope editor's drag handlers\<close>





subsection \<open>Note triggering (src/lib/utils/useAudioGraph.ts)\<close>

text \<open>
  The module keeps a list of synth sessions and the set of active notes. \<open>noteOn\<close> calls
  \<open>triggerAttack\<close> on every session's synth and adds the note to the set; \<open>noteOff\<close>
  calls \<open>triggerRelease\<close> and deletes the note. A synth is modelled by the triggers it
  has received.
\<close>

datatype trigger = TriggerAttack string | TriggerRelease string

record synthData =
  synth_id :: string
  received :: "trigger list"

record audioGraph =
  synths :: "synthData list"
  activeNotes :: "string set"

definition noteOn :: "string \<Rightarrow> audioGraph \<Rightarrow> audioGraph" where
  "noteOn note g =
     g\<lparr>synths := map (\<lambda>s. s\<lparr>received := received s @ [TriggerAttack note]\<rparr>) (synths g),
       activeNotes := insert note (activeNotes g)\<rparr>"

definition noteOff :: "string \<Rightarrow> audioGraph \<Rightarrow> audioGraph" where
  "noteOff note g =
     g\<lparr>synths := map (\<lambda>s. s\<lparr>received := received s @ [TriggerRelease note]\<rparr>) (synths g),
       activeNotes := activeNotes g - {note}\<rparr>"

text \<open>
  The on-screen keyboard (src/unnamed/part\_007) guards its own handlers: \<open>startNote\<close>
  returns at once for a note that is already active, otherwise it triggers the synth it
  was given and emits \<open>noteOn\<close>.
\<close>

record keyboard =
  kbActiveNotes :: "string set"
  kbSynth :: "trigger list option"
  emitted :: "(string \<times> string) list"

definition startNote :: "string \<Rightarrow> keyboard \<Rightarrow> keyboard" where
  "startNote note k =
     (if note \<in> kbActiveNotes k then k
      else k\<lparr>kbSynth := map_option (\<lambda>l. l @ [TriggerAttack note]) (kbSynth k),
             emitted := emitted k @ [(''noteOn'', note)]\<rparr>)"

definition endNote :: "string \<Rightarrow> keyboard \<Rightarrow> keyboard" where
  "endNote note k =
     (if note \<notin> kbActiveNotes k then k
      else k\<lparr>kbSynth := map_option (\<lambda>l. l @ [TriggerRelease note]) (kbSynth k),
             emitted := emitted k @ [(''noteOff'', note)]\<rparr>)"

subsection \<open>What the watchers of the reconnect variant assign\<close>

text \<open>
  The fields a consolidated watcher assigns to the node of its effect, in the order of the
  assignments, and a sequence of enable/disable toggles of the reconnect variant, which
  stops at the first exception.
\<close>

fun props_fields :: "state \<Rightarrow> kind \<Rightarrow> (string \<times> pval) list" where
  "props_fields s FilterK =
     [(''frequency'', Num (filterFreq s)), (''Q'', Num (filterQ s)), (''type'', Str (filterType s))]"
| "props_fields s DistortionK = [(''distortion'', Num (distortionAmount s))]"
| "props_fields s BitCrusherK = [(''bits'', Num (bitCrusherBits s))]"
| "props_fields s DelayK =
     [(''delayTime'', Num (delayTime s)), (''feedback'', Num (delayFeedback s)),
      (''wet'', Num (delayWet s))]"
| "props_fields s ReverbK = [(''decay'', Num (reverbRoomSize s)), (''wet'', Num (reverbWet s))]"
| "props_fields s CompressorK =
     [(''threshold'', Num (compressorThreshold s)), (''ratio'', Num (compressorRatio s))]"
| "props_fields s ChorusK =
     [(''frequency'', Num (chorusFreq s)), (''depth'', Num (chorusDepth s)),
      (''wet'', Num (chorusWet s))]"
| "props_fields s PhaserK =
     [(''frequency'', Num (phaserFreq s)), (''octaves'', Num (phaserDepth s)),
      (''wet'', Num (phaserWet s))]"

fun toggles :: "(kind \<times> bool) list \<Rightarrow> state \<Rightarrow> error + state" where
  "toggles [] s = Inr s"
| "toggles ((k, b) # rest) s =
     (case setEnabled_reconnect k b s of Inl e \<Rightarrow> Inl e | Inr s' \<Rightarrow> toggles rest s')"

definition nodes_exist :: "state \<Rightarrow> bool" where
  "nodes_exist s = (owned s \<subseteq> dom (heap s))"

subsection \<open>Auxiliary definitions for the proofs\<close>

definition disposed_heap ::
  "nat option list \<Rightarrow> (nat \<Rightarrow> tone_node option) \<Rightarrow> nat \<Rightarrow> tone_node option" where
  "disposed_heap hs h =
     (\<lambda>n. if Some n \<in> set hs then map_option (\<lambda>nd. nd\<lparr>wasDisposed := True\<rparr>) (h n) else h n)"

definition set_wet ::
  "bool \<Rightarrow> nat \<Rightarrow> real \<Rightarrow> (nat \<Rightarrow> tone_node option) \<Rightarrow> nat \<Rightarrow> tone_node option" where
  "set_wet b n v h =
     (if b then (case h n of None \<Rightarrow> h
                | Some nd \<Rightarrow> h(n \<mapsto> nd\<lparr>param := (param nd)(''wet'' \<mapsto> Num v)\<rparr>))
      else h)"

definition fresh_ids :: "state \<Rightarrow> nat set" where
  "fresh_ids s = {m. nextId s \<le> m \<and> m < nextId s + 12}"

definition alive :: "tone_node option \<Rightarrow> bool" where
  "alive x = (case x of None \<Rightarrow> False | Some nd \<Rightarrow> \<not> wasDisposed nd)"

definition upd_param ::
  "nat \<Rightarrow> string \<Rightarrow> pval \<Rightarrow> (nat \<Rightarrow> tone_node option) \<Rightarrow> nat \<Rightarrow> tone_node option" where
  "upd_param n name v h =
     (case h n of None \<Rightarrow> h | Some nd \<Rightarrow> h(n \<mapsto> nd\<lparr>param := (param nd)(name \<mapsto> v)\<rparr>))"

definition upd_fields ::
  "nat \<Rightarrow> (string \<times> pval) list \<Rightarrow> (nat \<Rightarrow> tone_node option) \<Rightarrow> nat \<Rightarrow> tone_node option" where
  "upd_fields n ps h = fold (\<lambda>p. upd_param n (fst p) (snd p)) ps h"

section \<open>Closed forms of the operations\<close>

subsection \<open>Closed forms of the library operations\<close>

lemma dispose_opt_eq:
  "dispose_opt x g =
     g\<lparr>heap := disposed_heap [x] (heap g), conns := {e \<in> conns g. Some (fst e) \<noteq> x}\<rparr>"
  by (cases x)
     (auto simp: dispose_opt_def dispose_def disconnect_def disposed_heap_def fun_eq_iff
           split: option.splits)

lemma disposed_heap_Cons: "disposed_heap xs (disposed_heap [x] h) = disposed_heap (x # xs) h"
  by (auto simp: disposed_heap_def fun_eq_iff option.map_comp o_def split: option.splits)

lemma fold_dispose_opt:
  "fold dispose_opt hs g =
     g\<lparr>heap := disposed_heap hs (heap g), conns := {e \<in> conns g. Some (fst e) \<notin> set hs}\<rparr>"
proof (induction hs arbitrary: g)
  case Nil
  show ?case by (simp add: disposed_heap_def)
next
  case (Cons x xs)
  have c: "{e \<in> {e \<in> conns g. Some (fst e) \<noteq> x}. Some (fst e) \<notin> set xs}
         = {e \<in> conns g. Some (fst e) \<notin> set (x # xs)}" by auto
  have "fold dispose_opt (x # xs) g = fold dispose_opt xs (dispose_opt x g)" by simp
  also have "\<dots> = (dispose_opt x g)\<lparr>heap := disposed_heap xs (heap (dispose_opt x g)),
      conns := {e \<in> conns (dispose_opt x g). Some (fst e) \<notin> set xs}\<rparr>"
    by (rule Cons)
  also have "\<dots> = g\<lparr>heap := disposed_heap (x # xs) (heap g),
      conns := {e \<in> conns g. Some (fst e) \<notin> set (x # xs)}\<rparr>"
    by (simp add: dispose_opt_eq disposed_heap_Cons c)
  finally show ?case .
qed

lemma disconnect_opt_eq:
  "disconnect_opt x g = g\<lparr>conns := {e \<in> conns g. Some (fst e) \<noteq> x}\<rparr>"
  by (cases x) (auto simp: disconnect_opt_def disconnect_def)

lemma fold_disconnect_opt:
  "fold disconnect_opt hs g = g\<lparr>conns := {e \<in> conns g. Some (fst e) \<notin> set hs}\<rparr>"
proof (induction hs arbitrary: g)
  case Nil
  show ?case by simp
next
  case (Cons x xs)
  have c: "{e \<in> {e \<in> conns g. Some (fst e) \<noteq> x}. Some (fst e) \<notin> set xs}
         = {e \<in> conns g. Some (fst e) \<notin> set (x # xs)}" by auto
  have "fold disconnect_opt (x # xs) g = fold disconnect_opt xs (disconnect_opt x g)" by simp
  also have "\<dots> = (disconnect_opt x g)\<lparr>conns :=
      {e \<in> conns (disconnect_opt x g). Some (fst e) \<notin> set xs}\<rparr>"
    by (rule Cons)
  also have "\<dots> = g\<lparr>conns := {e \<in> conns g. Some (fst e) \<notin> set (x # xs)}\<rparr>"
    by (simp add: disconnect_opt_eq c)
  finally show ?case .
qed

lemma connectSeries_eq: "connectSeries xs g = g\<lparr>conns := conns g \<union> series xs\<rparr>"
proof (induction xs g rule: connectSeries.induct)
  case (1 a b rest g)
  then show ?case by (simp add: connect_def)
qed simp_all

subsection \<open>Closed forms of the blocks of the recreate variant\<close>

lemma constructNodes_fst:
  "fst (constructNodes s) = (nextId s, Suc (nextId s), Suc (Suc (nextId s)), Suc (Suc (Suc (nextId s))), Suc (Suc (Suc (Suc (nextId s)))), Suc (Suc (Suc (Suc (Suc (nextId s))))), Suc (Suc (Suc (Suc (Suc (Suc (nextId s)))))), Suc (Suc (Suc (Suc (Suc (Suc (Suc (nextId s))))))), Suc (Suc (Suc (Suc (Suc (Suc (Suc (Suc (nextId s)))))))), Suc (Suc (Suc (Suc (Suc (Suc (Suc (Suc (Suc (nextId s))))))))), Suc (Suc (Suc (Suc (Suc (Suc (Suc (Suc (Suc (Suc (nextId s)))))))))), Suc (Suc (Suc (Suc (Suc (Suc (Suc (Suc (Suc (Suc (Suc (nextId s))))))))))))"
  by (simp add: constructNodes_def Let_def new_node_def
           cong: let_weak_cong prod.case_cong_weak)

lemma constructNodes_frame:
  "snd (constructNodes s) =
     s\<lparr>nextId := Suc (Suc (Suc (Suc (Suc (Suc (Suc (Suc (Suc (Suc (Suc (Suc (nextId s)))))))))))), heap := heap (snd (constructNodes s)), synth := Some (nextId s), filter_node := Some (Suc (nextId s)), distortion := Some (Suc (Suc (nextId s))), bitCrusher := Some (Suc (Suc (Suc (nextId s)))), delay := Some (Suc (Suc (Suc (Suc (nextId s))))), chorus := Some (Suc (Suc (Suc (Suc (Suc (nextId s)))))), phaser := Some (Suc (Suc (Suc (Suc (Suc (Suc (nextId s))))))), reverb := Some (Suc (Suc (Suc (Suc (Suc (Suc (Suc (nextId s)))))))), compressor := Some (Suc (Suc (Suc (Suc (Suc (Suc (Suc (Suc (nextId s))))))))), panner := Some (Suc (Suc (Suc (Suc (Suc (Suc (Suc (Suc (Suc (nextId s)))))))))), gainNode := Some (Suc (Suc (Suc (Suc (Suc (Suc (Suc (Suc (Suc (Suc (nextId s))))))))))), meter := Some (Suc (Suc (Suc (Suc (Suc (Suc (Suc (Suc (Suc (Suc (Suc (nextId s))))))))))))\<rparr>"
  by (simp add: constructNodes_def Let_def new_node_def
           cong: let_weak_cong prod.case_cong_weak)

lemma link_plain:
  "(if b then (x, connect c x s) else (c, s)) =
   (if b then x else c, s\<lparr>conns := conns s \<union> (if b then {(c, ToNode x)} else {})\<rparr>)"
  by (simp add: connect_def)

lemma link_wet:
  "(if b then (x, connect c x (set_param x ''wet'' (Num v) s)) else (c, s)) =
   (if b then x else c,
    s\<lparr>heap := set_wet b x v (heap s),
      conns := conns s \<union> (if b then {(c, ToNode x)} else {})\<rparr>)"
  by (simp add: connect_def set_param_def set_wet_def)

lemma connectNodes_heap:
  "heap (connectNodes (a0, a1, a2, a3, a4, a5, a6, a7, a8, a9, a10, a11) s) =
     set_wet (reverbEnabled s) a7 (reverbWet s)
       (set_wet (phaserEnabled s) a6 (phaserWet s)
         (set_wet (chorusEnabled s) a5 (chorusWet s)
           (set_wet (delayEnabled s) a4 (delayWet s) (heap s))))"
  apply (simp add: connectNodes_def Let_def link_plain link_wet toDestination_def
              split del: if_split cong: let_weak_cong prod.case_cong_weak if_cong)
  apply (simp add: connect_def split del: if_split cong: if_cong)
  done

lemma connectNodes_conns:
  "conns (connectNodes (a0, a1, a2, a3, a4, a5, a6, a7, a8, a9, a10, a11) s) =
     conns s \<union>
     (series (a0 # (node_list (filterEnabled s) (Some a1)
        @ node_list (distortionEnabled s) (Some a2)
        @ node_list (bitCrusherEnabled s) (Some a3)
        @ node_list (delayEnabled s) (Some a4)
        @ node_list (chorusEnabled s) (Some a5)
        @ node_list (phaserEnabled s) (Some a6)
        @ node_list (reverbEnabled s) (Some a7)
        @ node_list (compressorEnabled s) (Some a8))
        @ [a9, a10])
      \<union> {(a10, ToNode a11), (a10, ToDestination)})"
  apply (simp add: connectNodes_def Let_def link_plain link_wet toDestination_def
              split del: if_split cong: let_weak_cong prod.case_cong_weak if_cong)
  apply (simp add: connect_def split del: if_split cong: if_cong)
  apply (cases "filterEnabled s"; cases "distortionEnabled s"; cases "bitCrusherEnabled s";
         cases "delayEnabled s"; cases "chorusEnabled s"; cases "phaserEnabled s";
         cases "reverbEnabled s"; cases "compressorEnabled s";
         simp add: node_list_def insert_commute)
  done

lemma connectNodes_frame:
  "connectNodes (a0, a1, a2, a3, a4, a5, a6, a7, a8, a9, a10, a11) s =
     s\<lparr>heap := heap (connectNodes (a0, a1, a2, a3, a4, a5, a6, a7, a8, a9, a10, a11) s),
       conns := conns (connectNodes (a0, a1, a2, a3, a4, a5, a6, a7, a8, a9, a10, a11) s)\<rparr>"
  apply (simp add: connectNodes_def Let_def link_plain link_wet toDestination_def
              split del: if_split cong: let_weak_cong prod.case_cong_weak if_cong)
  apply (simp add: connect_def split del: if_split cong: if_cong)
  done

lemma disposeNodes_eq:
  "disposeNodes s =
     s\<lparr>heap := disposed_heap (handles s) (heap s),
       conns := {e \<in> conns s. Some (fst e) \<notin> set (handles s)}\<rparr>"
  by (simp add: disposeNodes_def fold_dispose_opt)

lemma initializeAudioChain_unfold:
  "initializeAudioChain s =
     connectNodes (fst (constructNodes (disposeNodes s))) (snd (constructNodes (disposeNodes s)))"
  by (simp add: initializeAudioChain_def Let_def split_def)

lemma constructNodes_conns: "conns (snd (constructNodes s)) = conns s"
  by (subst constructNodes_frame) simp

lemma constructNodes_flags:
  "filterEnabled (snd (constructNodes s)) = filterEnabled s"
  "distortionEnabled (snd (constructNodes s)) = distortionEnabled s"
  "bitCrusherEnabled (snd (constructNodes s)) = bitCrusherEnabled s"
  "delayEnabled (snd (constructNodes s)) = delayEnabled s"
  "chorusEnabled (snd (constructNodes s)) = chorusEnabled s"
  "phaserEnabled (snd (constructNodes s)) = phaserEnabled s"
  "reverbEnabled (snd (constructNodes s)) = reverbEnabled s"
  "compressorEnabled (snd (constructNodes s)) = compressorEnabled s"
  "delayWet (snd (constructNodes s)) = delayWet s"
  "chorusWet (snd (constructNodes s)) = chorusWet s"
  "phaserWet (snd (constructNodes s)) = phaserWet s"
  "reverbWet (snd (constructNodes s)) = reverbWet s"
  by (subst constructNodes_frame, simp)+

lemma initializeAudioChain_conns:
  "conns (initializeAudioChain s) =
     {e \<in> conns s. Some (fst e) \<notin> set (handles s)} \<union>
     (series (nextId s # (node_list (filterEnabled s) (Some (Suc (nextId s)))
        @ node_list (distortionEnabled s) (Some (Suc (Suc (nextId s))))
        @ node_list (bitCrusherEnabled s) (Some (Suc (Suc (Suc (nextId s)))))
        @ node_list (delayEnabled s) (Some (Suc (Suc (Suc (Suc (nextId s))))))
        @ node_list (chorusEnabled s) (Some (Suc (Suc (Suc (Suc (Suc (nextId s)))))))
        @ node_list (phaserEnabled s) (Some (Suc (Suc (Suc (Suc (Suc (Suc (nextId s))))))))
        @ node_list (reverbEnabled s) (Some (Suc (Suc (Suc (Suc (Suc (Suc (Suc (nextId s)))))))))
        @ node_list (compressorEnabled s) (Some (Suc (Suc (Suc (Suc (Suc (Suc (Suc (Suc (nextId s)))))))))))
        @ [Suc (Suc (Suc (Suc (Suc (Suc (Suc (Suc (Suc (nextId s))))))))), Suc (Suc (Suc (Suc (Suc (Suc (Suc (Suc (Suc (Suc (nextId s))))))))))])
      \<union> {(Suc (Suc (Suc (Suc (Suc (Suc (Suc (Suc (Suc (Suc (nextId s)))))))))), ToNode (Suc (Suc (Suc (Suc (Suc (Suc (Suc (Suc (Suc (Suc (Suc (nextId s))))))))))))), (Suc (Suc (Suc (Suc (Suc (Suc (Suc (Suc (Suc (Suc (nextId s)))))))))), ToDestination)})"
  by (simp add: initializeAudioChain_unfold constructNodes_fst connectNodes_conns
        constructNodes_conns constructNodes_flags disposeNodes_eq)

lemma initializeAudioChain_heap:
  "heap (initializeAudioChain s) =
     set_wet (reverbEnabled s) (Suc (Suc (Suc (Suc (Suc (Suc (Suc (nextId s)))))))) (reverbWet s)
       (set_wet (phaserEnabled s) (Suc (Suc (Suc (Suc (Suc (Suc (nextId s))))))) (phaserWet s)
         (set_wet (chorusEnabled s) (Suc (Suc (Suc (Suc (Suc (nextId s)))))) (chorusWet s)
           (set_wet (delayEnabled s) (Suc (Suc (Suc (Suc (nextId s))))) (delayWet s)
              (heap (snd (constructNodes (disposeNodes s)))))))"
  by (simp add: initializeAudioChain_unfold constructNodes_fst connectNodes_heap
        constructNodes_flags disposeNodes_eq)

lemma initializeAudioChain_frame:
  "initializeAudioChain s =
     s\<lparr>nextId := Suc (Suc (Suc (Suc (Suc (Suc (Suc (Suc (Suc (Suc (Suc (Suc (nextId s)))))))))))), heap := heap (initializeAudioChain s),
       conns := conns (initializeAudioChain s),
       synth := Some (nextId s),
       filter_node := Some (Suc (nextId s)),
       distortion := Some (Suc (Suc (nextId s))),
       bitCrusher := Some (Suc (Suc (Suc (nextId s)))),
       delay := Some (Suc (Suc (Suc (Suc (nextId s))))),
       chorus := Some (Suc (Suc (Suc (Suc (Suc (nextId s)))))),
       phaser := Some (Suc (Suc (Suc (Suc (Suc (Suc (nextId s))))))),
       reverb := Some (Suc (Suc (Suc (Suc (Suc (Suc (Suc (nextId s)))))))),
       compressor := Some (Suc (Suc (Suc (Suc (Suc (Suc (Suc (Suc (nextId s))))))))),
       panner := Some (Suc (Suc (Suc (Suc (Suc (Suc (Suc (Suc (Suc (nextId s)))))))))),
       gainNode := Some (Suc (Suc (Suc (Suc (Suc (Suc (Suc (Suc (Suc (Suc (nextId s))))))))))),
       meter := Some (Suc (Suc (Suc (Suc (Suc (Suc (Suc (Suc (Suc (Suc (Suc (nextId s))))))))))))\<rparr>"
proof -
  define t where "t = snd (constructNodes (disposeNodes s))"
  define H where "H = heap (initializeAudioChain s)"
  define C where "C = conns (initializeAudioChain s)"
  have n: "nextId (disposeNodes s) = nextId s" by (simp add: disposeNodes_eq)
  have A: "initializeAudioChain s = connectNodes (nextId s, Suc (nextId s), Suc (Suc (nextId s)), Suc (Suc (Suc (nextId s))), Suc (Suc (Suc (Suc (nextId s)))), Suc (Suc (Suc (Suc (Suc (nextId s))))), Suc (Suc (Suc (Suc (Suc (Suc (nextId s)))))), Suc (Suc (Suc (Suc (Suc (Suc (Suc (nextId s))))))), Suc (Suc (Suc (Suc (Suc (Suc (Suc (Suc (nextId s)))))))), Suc (Suc (Suc (Suc (Suc (Suc (Suc (Suc (Suc (nextId s))))))))), Suc (Suc (Suc (Suc (Suc (Suc (Suc (Suc (Suc (Suc (nextId s)))))))))), Suc (Suc (Suc (Suc (Suc (Suc (Suc (Suc (Suc (Suc (Suc (nextId s)))))))))))) t"
    by (simp only: initializeAudioChain_unfold constructNodes_fst t_def n)
  have "initializeAudioChain s = t\<lparr>heap := H, conns := C\<rparr>"
    unfolding H_def C_def by (subst (2 3) A, subst A, rule connectNodes_frame)
  also have "\<dots> = ((disposeNodes s)\<lparr>nextId := Suc (Suc (Suc (Suc (Suc (Suc (Suc (Suc (Suc (Suc (Suc (Suc (nextId s)))))))))))), heap := heap t,
       synth := Some (nextId s),
       filter_node := Some (Suc (nextId s)),
       distortion := Some (Suc (Suc (nextId s))),
       bitCrusher := Some (Suc (Suc (Suc (nextId s)))),
       delay := Some (Suc (Suc (Suc (Suc (nextId s))))),
       chorus := Some (Suc (Suc (Suc (Suc (Suc (nextId s)))))),
       phaser := Some (Suc (Suc (Suc (Suc (Suc (Suc (nextId s))))))),
       reverb := Some (Suc (Suc (Suc (Suc (Suc (Suc (Suc (nextId s)))))))),
       compressor := Some (Suc (Suc (Suc (Suc (Suc (Suc (Suc (Suc (nextId s))))))))),
       panner := Some (Suc (Suc (Suc (Suc (Suc (Suc (Suc (Suc (Suc (nextId s)))))))))),
       gainNode := Some (Suc (Suc (Suc (Suc (Suc (Suc (Suc (Suc (Suc (Suc (nextId s))))))))))),
       meter := Some (Suc (Suc (Suc (Suc (Suc (Suc (Suc (Suc (Suc (Suc (Suc (nextId s))))))))))))\<rparr>)\<lparr>heap := H, conns := C\<rparr>"
    unfolding t_def by (subst constructNodes_frame) (simp only: n)
  also have "\<dots> = s\<lparr>nextId := Suc (Suc (Suc (Suc (Suc (Suc (Suc (Suc (Suc (Suc (Suc (Suc (nextId s)))))))))))), heap := H, conns := C,
       synth := Some (nextId s),
       filter_node := Some (Suc (nextId s)),
       distortion := Some (Suc (Suc (nextId s))),
       bitCrusher := Some (Suc (Suc (Suc (nextId s)))),
       delay := Some (Suc (Suc (Suc (Suc (nextId s))))),
       chorus := Some (Suc (Suc (Suc (Suc (Suc (nextId s)))))),
       phaser := Some (Suc (Suc (Suc (Suc (Suc (Suc (nextId s))))))),
       reverb := Some (Suc (Suc (Suc (Suc (Suc (Suc (Suc (nextId s)))))))),
       compressor := Some (Suc (Suc (Suc (Suc (Suc (Suc (Suc (Suc (nextId s))))))))),
       panner := Some (Suc (Suc (Suc (Suc (Suc (Suc (Suc (Suc (Suc (nextId s)))))))))),
       gainNode := Some (Suc (Suc (Suc (Suc (Suc (Suc (Suc (Suc (Suc (Suc (nextId s))))))))))),
       meter := Some (Suc (Suc (Suc (Suc (Suc (Suc (Suc (Suc (Suc (Suc (Suc (nextId s))))))))))))\<rparr>"
    by (simp add: disposeNodes_eq)
  finally show ?thesis unfolding H_def C_def .
qed

lemma fresh_ids_eq: "fresh_ids s = {nextId s, Suc (nextId s), Suc (Suc (nextId s)), Suc (Suc (Suc (nextId s))), Suc (Suc (Suc (Suc (nextId s)))), Suc (Suc (Suc (Suc (Suc (nextId s))))), Suc (Suc (Suc (Suc (Suc (Suc (nextId s)))))), Suc (Suc (Suc (Suc (Suc (Suc (Suc (nextId s))))))), Suc (Suc (Suc (Suc (Suc (Suc (Suc (Suc (nextId s)))))))), Suc (Suc (Suc (Suc (Suc (Suc (Suc (Suc (Suc (nextId s))))))))), Suc (Suc (Suc (Suc (Suc (Suc (Suc (Suc (Suc (Suc (nextId s)))))))))), Suc (Suc (Suc (Suc (Suc (Suc (Suc (Suc (Suc (Suc (Suc (nextId s)))))))))))}"
  unfolding fresh_ids_def by (rule set_eqI) (simp, arith)

lemma constructNodes_heap:
  "heap (snd (constructNodes s)) =
     (heap s)
       (nextId s \<mapsto> \<lparr>cls = ''PolySynth'', wasDisposed = False, param = map_of ((''oscillator.type'', Str (oscillatorType s)) # envelope_params (envelope s))\<rparr>,
        Suc (nextId s) \<mapsto> \<lparr>cls = ''Filter'', wasDisposed = False, param = map_of [(''frequency'', Num (filterFreq s)), (''type'', Str (filterType s))]\<rparr>,
        Suc (Suc (nextId s)) \<mapsto> \<lparr>cls = ''Distortion'', wasDisposed = False, param = map_of [(''distortion'', Num (distortionAmount s))]\<rparr>,
        Suc (Suc (Suc (nextId s))) \<mapsto> \<lparr>cls = ''BitCrusher'', wasDisposed = False, param = map_of [(''bits'', Num (bitCrusherBits s))]\<rparr>,
        Suc (Suc (Suc (Suc (nextId s)))) \<mapsto> \<lparr>cls = ''FeedbackDelay'', wasDisposed = False, param = map_of [(''delayTime'', Num (delayTime s)), (''feedback'', Num (delayFeedback s))]\<rparr>,
        Suc (Suc (Suc (Suc (Suc (nextId s))))) \<mapsto> \<lparr>cls = ''Chorus'', wasDisposed = False, param = map_of [(''frequency'', Num (chorusFreq s)), (''delayTime'', Num (chorusDepth s)), (''depth'', Num 0.5)]\<rparr>,
        Suc (Suc (Suc (Suc (Suc (Suc (nextId s)))))) \<mapsto> \<lparr>cls = ''Phaser'', wasDisposed = False, param = map_of [(''frequency'', Num (phaserFreq s)), (''baseFrequency'', Num 1000)]\<rparr>,
        Suc (Suc (Suc (Suc (Suc (Suc (Suc (nextId s))))))) \<mapsto> \<lparr>cls = ''Reverb'', wasDisposed = False, param = map_of [(''decay'', Num (reverbRoomSize s))]\<rparr>,
        Suc (Suc (Suc (Suc (Suc (Suc (Suc (Suc (nextId s)))))))) \<mapsto> \<lparr>cls = ''Compressor'', wasDisposed = False, param = map_of [(''threshold'', Num (compressorThreshold s)), (''ratio'', Num (compressorRatio s))]\<rparr>,
        Suc (Suc (Suc (Suc (Suc (Suc (Suc (Suc (Suc (nextId s))))))))) \<mapsto> \<lparr>cls = ''Panner'', wasDisposed = False, param = map_of [(''pan'', Num (panValue s))]\<rparr>,
        Suc (Suc (Suc (Suc (Suc (Suc (Suc (Suc (Suc (Suc (nextId s)))))))))) \<mapsto> \<lparr>cls = ''Gain'', wasDisposed = False, param = map_of [(''gain'', Num (gainValue s))]\<rparr>,
        Suc (Suc (Suc (Suc (Suc (Suc (Suc (Suc (Suc (Suc (Suc (nextId s))))))))))) \<mapsto> \<lparr>cls = ''Meter'', wasDisposed = False, param = map_of [(''smoothing'', Num 0.8)]\<rparr>)"
  by (simp add: constructNodes_def Let_def new_node_def
           cong: let_weak_cong prod.case_cong_weak)

lemma live_alive: "live g = {n. alive (heap g n)}"
  by (simp add: live_def alive_def)

lemma alive_simps [simp]:
  "alive None = False"
  "alive (Some nd) = (\<not> wasDisposed nd)"
  by (simp_all add: alive_def)

lemma alive_set_wet [simp]: "alive (set_wet b x v h m) = alive (h m)"
  by (simp add: set_wet_def alive_def split: option.splits)

lemma alive_disposed_heap [simp]:
  "alive (disposed_heap hs h m) = (alive (h m) \<and> Some m \<notin> set hs)"
  by (simp add: disposed_heap_def alive_def split: option.splits)

lemma initializeAudioChain_live:
  "live (initializeAudioChain s) = fresh_ids s \<union> (live s - owned s)"
  apply (simp add: live_alive initializeAudioChain_heap constructNodes_heap disposeNodes_eq)
  apply (auto simp: fresh_ids_eq owned_def)
  done

lemma initializeAudioChain_handles:
  "handles (initializeAudioChain s) = map Some [nextId s, Suc (nextId s), Suc (Suc (nextId s)), Suc (Suc (Suc (nextId s))), Suc (Suc (Suc (Suc (nextId s)))), Suc (Suc (Suc (Suc (Suc (nextId s))))), Suc (Suc (Suc (Suc (Suc (Suc (nextId s)))))), Suc (Suc (Suc (Suc (Suc (Suc (Suc (nextId s))))))), Suc (Suc (Suc (Suc (Suc (Suc (Suc (Suc (nextId s)))))))), Suc (Suc (Suc (Suc (Suc (Suc (Suc (Suc (Suc (nextId s))))))))), Suc (Suc (Suc (Suc (Suc (Suc (Suc (Suc (Suc (Suc (nextId s)))))))))), Suc (Suc (Suc (Suc (Suc (Suc (Suc (Suc (Suc (Suc (Suc (nextId s)))))))))))]"
  by (subst initializeAudioChain_frame) (simp add: handles_def)

lemma initializeAudioChain_owned: "owned (initializeAudioChain s) = fresh_ids s"
  by (auto simp: owned_def initializeAudioChain_handles fresh_ids_eq)



subsection \<open>Closed forms of the reconnect variant\<close>

lemma set_param_eq: "set_param n name v g = g\<lparr>heap := upd_param n name v (heap g)\<rparr>"
  by (simp add: set_param_def upd_param_def)

lemma upd_param_apply:
  "upd_param n name v h m =
     (if m = n then map_option (\<lambda>nd. nd\<lparr>param := (param nd)(name \<mapsto> v)\<rparr>) (h m) else h m)"
  by (simp add: upd_param_def split: option.splits)

lemma alive_upd_param [simp]: "alive (upd_param n name v h m) = alive (h m)"
  by (simp add: upd_param_apply alive_def split: option.splits)

lemma assign_opt_Some:
  "assign_opt (Some n) nm v s = s\<lparr>heap := upd_param n nm v (heap s)\<rparr>"
  by (simp add: assign_opt_def set_param_eq)

lemma assign_opt_None: "assign_opt None nm v s = s"
  by (simp add: assign_opt_def)

lemma createAudioNodes_frame:
  "createAudioNodes s =
     s\<lparr>nextId := Suc (Suc (Suc (Suc (Suc (Suc (Suc (Suc (Suc (Suc (Suc (Suc (nextId s)))))))))))), heap := heap (createAudioNodes s),
       synth := Some (nextId s),
       panner := Some (Suc (nextId s)),
       gainNode := Some (Suc (Suc (nextId s))),
       meter := Some (Suc (Suc (Suc (nextId s)))),
       filter_node := Some (Suc (Suc (Suc (Suc (nextId s))))),
       distortion := Some (Suc (Suc (Suc (Suc (Suc (nextId s)))))),
       bitCrusher := Some (Suc (Suc (Suc (Suc (Suc (Suc (nextId s))))))),
       delay := Some (Suc (Suc (Suc (Suc (Suc (Suc (Suc (nextId s)))))))),
       chorus := Some (Suc (Suc (Suc (Suc (Suc (Suc (Suc (Suc (nextId s))))))))),
       phaser := Some (Suc (Suc (Suc (Suc (Suc (Suc (Suc (Suc (Suc (nextId s)))))))))),
       reverb := Some (Suc (Suc (Suc (Suc (Suc (Suc (Suc (Suc (Suc (Suc (nextId s))))))))))),
       compressor := Some (Suc (Suc (Suc (Suc (Suc (Suc (Suc (Suc (Suc (Suc (Suc (nextId s))))))))))))\<rparr>"
  by (simp add: createAudioNodes_def Let_def new_node_def assign_opt_Some
           cong: let_weak_cong prod.case_cong_weak)

lemma createAudioNodes_heap:
  "heap (createAudioNodes s) =
     upd_param (Suc (Suc (Suc (Suc (Suc (Suc (Suc (Suc (Suc (Suc (nextId s))))))))))) ''wet'' (Num (reverbWet s))
       (upd_param (Suc (Suc (Suc (Suc (Suc (Suc (Suc (Suc (Suc (nextId s)))))))))) ''wet'' (Num (phaserWet s))
         (upd_param (Suc (Suc (Suc (Suc (Suc (Suc (Suc (Suc (nextId s))))))))) ''wet'' (Num (chorusWet s))
           (upd_param (Suc (Suc (Suc (Suc (Suc (Suc (Suc (nextId s)))))))) ''wet'' (Num (delayWet s))
     ((heap s)
       (nextId s \<mapsto> \<lparr>cls = ''PolySynth'', wasDisposed = False, param = map_of ((''oscillator.type'', Str (oscillatorType s)) # envelope_params (envelope s))\<rparr>,
        Suc (nextId s) \<mapsto> \<lparr>cls = ''Panner'', wasDisposed = False, param = map_of [(''pan'', Num (panValue s))]\<rparr>,
        Suc (Suc (nextId s)) \<mapsto> \<lparr>cls = ''Gain'', wasDisposed = False, param = map_of [(''gain'', Num (gainValue s))]\<rparr>,
        Suc (Suc (Suc (nextId s))) \<mapsto> \<lparr>cls = ''Meter'', wasDisposed = False, param = map_of [(''smoothing'', Num 0.8)]\<rparr>,
        Suc (Suc (Suc (Suc (nextId s)))) \<mapsto> \<lparr>cls = ''Filter'', wasDisposed = False, param = map_of [(''frequency'', Num (filterFreq s)), (''type'', Str (filterType s))]\<rparr>,
        Suc (Suc (Suc (Suc (Suc (nextId s))))) \<mapsto> \<lparr>cls = ''Distortion'', wasDisposed = False, param = map_of [(''distortion'', Num (distortionAmount s))]\<rparr>,
        Suc (Suc (Suc (Suc (Suc (Suc (nextId s)))))) \<mapsto> \<lparr>cls = ''BitCrusher'', wasDisposed = False, param = map_of [(''bits'', Num (bitCrusherBits s))]\<rparr>,
        Suc (Suc (Suc (Suc (Suc (Suc (Suc (nextId s))))))) \<mapsto> \<lparr>cls = ''FeedbackDelay'', wasDisposed = False, param = map_of [(''delayTime'', Num (delayTime s)), (''feedback'', Num (delayFeedback s))]\<rparr>,
        Suc (Suc (Suc (Suc (Suc (Suc (Suc (Suc (nextId s)))))))) \<mapsto> \<lparr>cls = ''Chorus'', wasDisposed = False, param = map_of [(''frequency'', Num (chorusFreq s)), (''delayTime'', Num (chorusDepth s)), (''depth'', Num 0.5)]\<rparr>,
        Suc (Suc (Suc (Suc (Suc (Suc (Suc (Suc (Suc (nextId s))))))))) \<mapsto> \<lparr>cls = ''Phaser'', wasDisposed = False, param = map_of [(''frequency'', Num (phaserFreq s)), (''octaves'', Num (phaserDepth s)), (''baseFrequency'', Num 1000)]\<rparr>,
        Suc (Suc (Suc (Suc (Suc (Suc (Suc (Suc (Suc (Suc (nextId s)))))))))) \<mapsto> \<lparr>cls = ''Reverb'', wasDisposed = False, param = map_of [(''decay'', Num (reverbRoomSize s))]\<rparr>,
        Suc (Suc (Suc (Suc (Suc (Suc (Suc (Suc (Suc (Suc (Suc (nextId s))))))))))) \<mapsto> \<lparr>cls = ''Compressor'', wasDisposed = False, param = map_of [(''threshold'', Num (compressorThreshold s)), (''ratio'', Num (compressorRatio s))]\<rparr>)))))"
  by (simp add: createAudioNodes_def Let_def new_node_def assign_opt_Some
           cong: let_weak_cong prod.case_cong_weak)

lemma createAudioNodes_alive:
  "alive (heap (createAudioNodes s) m) = (m \<in> fresh_ids s \<or> alive (heap s m))"
  by (simp add: createAudioNodes_heap fresh_ids_eq)

lemma createAudioNodes_wet:
  "param_of (createAudioNodes s) (Suc (Suc (Suc (Suc (Suc (Suc (Suc (nextId s)))))))) ''wet'' = Some (Num (delayWet s))"
  "param_of (createAudioNodes s) (Suc (Suc (Suc (Suc (Suc (Suc (Suc (Suc (nextId s))))))))) ''wet'' = Some (Num (chorusWet s))"
  "param_of (createAudioNodes s) (Suc (Suc (Suc (Suc (Suc (Suc (Suc (Suc (Suc (nextId s)))))))))) ''wet'' = Some (Num (phaserWet s))"
  "param_of (createAudioNodes s) (Suc (Suc (Suc (Suc (Suc (Suc (Suc (Suc (Suc (Suc (nextId s))))))))))) ''wet'' = Some (Num (reverbWet s))"
  by (simp_all add: param_of_def createAudioNodes_heap upd_param_apply)

lemma updateAudioChain_eq:
  assumes "synth s = Some a" "panner s = Some p" "gainNode s = Some g" "meter s = Some m"
  shows "updateAudioChain s =
     Inr (s\<lparr>conns := {e \<in> conns s. Some (fst e) \<notin> set (butlast (handles s))}
            \<union> (series (a # active_nodes s @ [p, g])
                 \<union> {(g, ToNode m), (g, ToDestination)})\<rparr>)"
proof -
  define hs where "hs = [filter_node s, distortion s, bitCrusher s, delay s, chorus s,
                phaser s, reverb s, compressor s]"
  have c: "{e \<in> conns s. fst e \<noteq> a \<and> Some (fst e) \<notin> set hs \<and> fst e \<noteq> p \<and> fst e \<noteq> g}
         = {e \<in> conns s. Some (fst e) \<notin> set (butlast (handles s))}"
    using assms by (auto simp: handles_def hs_def)
  have u: "updateAudioChain s =
     (let t = disconnect a s;
          t = fold disconnect_opt hs t;
          t = disconnect p t;
          t = disconnect g t;
          t = connectSeries (a # active_nodes s @ [p, g]) t
      in Inr (toDestination g (connect g m t)))"
    using assms
    by (simp add: updateAudioChain_def Let_def disconnect_def hs_def
          active_nodes_def canonical_order_def disconnect_opt_eq connectSeries_eq
          cong: let_weak_cong prod.case_cong_weak)
  show ?thesis
    unfolding u
    by (simp add: Let_def disconnect_def fold_disconnect_opt connectSeries_eq connect_def
          toDestination_def c insert_commute cong: let_weak_cong)
qed

lemma updateAudioChain_no_meter:
  assumes "synth s = Some a" "panner s = Some p" "gainNode s = Some g" "meter s = None"
  shows "updateAudioChain s = Inl ConnectToNull"
  using assms
  by (simp add: updateAudioChain_def Let_def disconnect_def disconnect_opt_eq
        connectSeries_eq cong: let_weak_cong prod.case_cong_weak)

lemma updateAudioChain_early:
  assumes "synth s = None \<or> panner s = None \<or> gainNode s = None"
  shows "updateAudioChain s = Inr s"
  using assms by (auto simp: updateAudioChain_def split: option.splits)

section \<open>The properties\<close>

subsection \<open>Note triggering\<close>

lemma startNote_active: "note \<in> kbActiveNotes k \<Longrightarrow> startNote note k = k"
  by (simp add: startNote_def)

text \<open>
  C7. In every state \<open>noteOn\<close> forwards one attack to every synth and adds the note to
  the set of active notes, and \<open>noteOff\<close> forwards one release and removes the note.
  After \<open>noteOn\<close> twice the set holds the note once and every synth has received two
  attacks. When the note is already active, \<open>noteOn\<close> still forwards the attack and
  leaves the set as it is.
\<close>

theorem noteOn_retrigger:
  "activeNotes (noteOn n g) = insert n (activeNotes g)
   \<and> map received (synths (noteOn n g))
       = map (\<lambda>s. received s @ [TriggerAttack n]) (synths g)
   \<and> map synth_id (synths (noteOn n g)) = map synth_id (synths g)
   \<and> activeNotes (noteOff n g) = activeNotes g - {n}
   \<and> map received (synths (noteOff n g))
       = map (\<lambda>s. received s @ [TriggerRelease n]) (synths g)
   \<and> activeNotes (noteOn n (noteOn n g)) = insert n (activeNotes g)
   \<and> map received (synths (noteOn n (noteOn n g)))
       = map (\<lambda>s. received s @ [TriggerAttack n, TriggerAttack n]) (synths g)
   \<and> (n \<in> activeNotes g \<longrightarrow>
        activeNotes (noteOn n g) = activeNotes g
        \<and> map received (synths (noteOn n g))
            = map (\<lambda>s. received s @ [TriggerAttack n]) (synths g))"
  by (auto simp: noteOn_def noteOff_def o_def)

theorem noteOn_retrigger_witness:
  "activeNotes (noteOn ''C4'' (noteOn ''C4''
       \<lparr>synths = [\<lparr>synth_id = ''a'', received = []\<rparr>], activeNotes = {}\<rparr>)) = {''C4''}
   \<and> map received (synths (noteOn ''C4'' (noteOn ''C4''
       \<lparr>synths = [\<lparr>synth_id = ''a'', received = []\<rparr>], activeNotes = {}\<rparr>)))
       = [[TriggerAttack ''C4'', TriggerAttack ''C4'']]
   \<and> ''C4'' \<in> activeNotes (noteOn ''C4''
       \<lparr>synths = [\<lparr>synth_id = ''a'', received = []\<rparr>], activeNotes = {}\<rparr>)
   \<and> activeNotes (noteOn ''C4'' (noteOn ''C4''
       \<lparr>synths = [\<lparr>synth_id = ''a'', received = []\<rparr>], activeNotes = {}\<rparr>))
       = activeNotes (noteOn ''C4''
       \<lparr>synths = [\<lparr>synth_id = ''a'', received = []\<rparr>], activeNotes = {}\<rparr>)"
proof -
  let ?g0 = "\<lparr>synths = [\<lparr>synth_id = ''a'', received = []\<rparr>], activeNotes = {}\<rparr>"
  have h: "''C4'' \<in> activeNotes (noteOn ''C4'' ?g0)" by (simp add: noteOn_def)
  have s0: "synths ?g0 = [\<lparr>synth_id = ''a'', received = []\<rparr>]" by simp
  have a0: "activeNotes ?g0 = {}" by simp
  from noteOn_retrigger [of "''C4''" ?g0] noteOn_retrigger [of "''C4''" "noteOn ''C4'' ?g0"] h
  show ?thesis by (simp add: s0 a0)
qed

subsection \<open>The level meter\<close>

lemma dbToGain_le_one: "dbToGain d \<le> 1 \<longleftrightarrow> d \<le> 0"
proof -
  have "(10::real) powr (d / 20) \<le> 10 powr 0 \<longleftrightarrow> d / 20 \<le> 0"
    by (rule powr_le_cancel_iff) simp
  then show ?thesis by (simp add: dbToGain_def)
qed

text \<open>
  C8, as stated: every published meter level lies in 0..1. A reading of 20 decibels is
  published as 10.
\<close>

theorem meter_level_counterexample:
  "normalized (meterTick (Decibels 20) init_recreate) = 10
   \<and> \<not> normalized (meterTick (Decibels 20) init_recreate) \<le> 1"
  by (simp add: meterTick_def dbToGain_def)

text \<open>
  C8, amended: a reading of negative infinity is published as exactly 0 and a finite
  reading of \<open>d\<close> decibels as 10 to the power \<open>d / 20\<close>; every published level is at
  least 0, and it is at most 1 exactly when \<open>d\<close> is at most 0. The tick assigns
  \<open>normalized\<close> and nothing else.
\<close>

theorem meter_level_range:
  "normalized (meterTick NegInfinity s) = 0
   \<and> normalized (meterTick (Decibels d) s) = 10 powr (d / 20)
   \<and> 0 \<le> normalized (meterTick val s)
   \<and> (normalized (meterTick (Decibels d) s) \<le> 1 \<longleftrightarrow> d \<le> 0)
   \<and> meterTick val s = s\<lparr>normalized := normalized (meterTick val s)\<rparr>"
proof -
  have a: "normalized (meterTick NegInfinity s) = 0" by (simp add: meterTick_def)
  have b: "normalized (meterTick (Decibels d) s) = 10 powr (d / 20)"
    by (simp add: meterTick_def dbToGain_def)
  have c: "0 \<le> normalized (meterTick val s)"
    by (cases val) (simp_all add: meterTick_def dbToGain_def)
  have d: "normalized (meterTick (Decibels d) s) \<le> 1 \<longleftrightarrow> d \<le> 0"
    using dbToGain_le_one [of d] by (simp add: meterTick_def)
  have e: "meterTick val s = s\<lparr>normalized := normalized (meterTick val s)\<rparr>"
    by (simp add: meterTick_def)
  from a b c d e show ?thesis by blast
qed

subsection \<open>The envelope editor\<close>










subsection \<open>Parameter watchers\<close>

lemma watch_eq:
  "watch u s = assign_opt (watched_node u s) (fst (watched_field u)) (snd (watched_field u)) s"
  by (cases u) simp_all

lemma watch_None: "watched_node u s = None \<Longrightarrow> watch u s = s"
  by (simp add: watch_eq assign_opt_None)

lemma watch_Some:
  "watched_node u s = Some n \<Longrightarrow>
   watch u s = s\<lparr>heap := upd_param n (fst (watched_field u)) (snd (watched_field u)) (heap s)\<rparr>"
  by (simp add: watch_eq assign_opt_Some)

lemma watchProps_None: "node_of s k = None \<Longrightarrow> watchProps k s = s"
  by (cases k) simp_all

lemma watchProps_Some:
  "node_of s k = Some n \<Longrightarrow> watchProps k s = s\<lparr>heap := upd_fields n (props_fields s k) (heap s)\<rparr>"
  by (cases k) (simp_all add: set_param_eq upd_fields_def)

lemma upd_fields_other: "m \<noteq> n \<Longrightarrow> upd_fields n ps h m = h m"
  unfolding upd_fields_def by (induction ps arbitrary: h) (simp_all add: upd_param_apply)

lemma alive_upd_fields [simp]: "alive (upd_fields n ps h m) = alive (h m)"
  unfolding upd_fields_def by (induction ps arbitrary: h) simp_all

lemma upd_fields_dom: "(upd_fields n ps h m = None) = (h m = None)"
  unfolding upd_fields_def by (induction ps arbitrary: h) (simp_all add: upd_param_apply)

lemma upd_param_dom: "(upd_param n nm v h m = None) = (h m = None)"
  by (simp add: upd_param_apply)

lemma handles_heap_update [simp]: "handles (s\<lparr>heap := H\<rparr>) = handles s"
  by (simp add: handles_def)

lemma handles_conns_update [simp]: "handles (s\<lparr>conns := C\<rparr>) = handles s"
  by (simp add: handles_def)

text \<open>
  C3. A parameter update changes nothing but the heap entry of the node it is aimed at:
  the connections, the node variables and all reactive values are the same before and
  after, every other node is untouched and no node is constructed or disposed. This holds
  for every watcher of the recreate variant and every consolidated watcher of the
  reconnect variant.
\<close>

theorem parameter_update_keeps_connections:
  "conns (watch u s) = conns s
   \<and> handles (watch u s) = handles s
   \<and> nextId (watch u s) = nextId s
   \<and> live (watch u s) = live s
   \<and> watch u s = s\<lparr>heap := heap (watch u s)\<rparr>
   \<and> (\<forall>m. Some m = watched_node u s \<or> heap (watch u s) m = heap s m)
   \<and> conns (watchProps k s) = conns s
   \<and> handles (watchProps k s) = handles s
   \<and> nextId (watchProps k s) = nextId s
   \<and> live (watchProps k s) = live s
   \<and> watchProps k s = s\<lparr>heap := heap (watchProps k s)\<rparr>
   \<and> (\<forall>m. Some m = node_of s k \<or> heap (watchProps k s) m = heap s m)"
proof -
  have a: "conns (watch u s) = conns s \<and> handles (watch u s) = handles s
      \<and> nextId (watch u s) = nextId s \<and> live (watch u s) = live s
      \<and> watch u s = s\<lparr>heap := heap (watch u s)\<rparr>
      \<and> (\<forall>m. Some m = watched_node u s \<or> heap (watch u s) m = heap s m)"
  proof (cases "watched_node u s")
    case None
    then show ?thesis by (simp add: watch_None)
  next
    case (Some n)
    have l: "live (watch u s) = live s" by (simp add: watch_Some [OF Some] live_alive)
    have o: "\<forall>m. Some m = watched_node u s \<or> heap (watch u s) m = heap s m"
      by (auto simp: watch_Some [OF Some] Some upd_param_apply)
    from l o show ?thesis by (simp add: watch_Some [OF Some])
  qed
  have b: "conns (watchProps k s) = conns s \<and> handles (watchProps k s) = handles s
      \<and> nextId (watchProps k s) = nextId s \<and> live (watchProps k s) = live s
      \<and> watchProps k s = s\<lparr>heap := heap (watchProps k s)\<rparr>
      \<and> (\<forall>m. Some m = node_of s k \<or> heap (watchProps k s) m = heap s m)"
  proof (cases "node_of s k")
    case None
    then show ?thesis by (simp add: watchProps_None)
  next
    case (Some n)
    have l: "live (watchProps k s) = live s" by (simp add: watchProps_Some [OF Some] live_alive)
    have o: "\<forall>m. Some m = node_of s k \<or> heap (watchProps k s) m = heap s m"
      using upd_fields_other [of _ n "props_fields s k" "heap s"]
      by (auto simp: watchProps_Some [OF Some] Some)
    from l o show ?thesis by (simp add: watchProps_Some [OF Some])
  qed
  from a b show ?thesis by blast
qed

subsection \<open>Teardown\<close>

lemma disposed_heap_idem: "disposed_heap hs (disposed_heap hs h) = disposed_heap hs h"
  by (auto simp: disposed_heap_def fun_eq_iff option.map_comp o_def split: option.splits)

lemma onBeforeUnmount_eq:
  "onBeforeUnmount s =
     s\<lparr>heap := disposed_heap (handles s) (heap s),
       conns := {e \<in> conns s. Some (fst e) \<notin> set (handles s)}\<rparr>"
  by (simp add: onBeforeUnmount_def fold_dispose_opt)

text \<open>
  C5. The teardown is idempotent: a second call gives the state of the first. After it
  no node held by a variable is live and none has a connection leaving it; the variables
  keep their values and nothing but the nodes and the connections changes. The teardown
  has no failing branch.
\<close>

theorem teardown_idempotent:
  "onBeforeUnmount (onBeforeUnmount s) = onBeforeUnmount s
   \<and> handles (onBeforeUnmount s) = handles s
   \<and> live (onBeforeUnmount s) = live s - owned s
   \<and> {e \<in> conns (onBeforeUnmount s). fst e \<in> owned s} = {}
   \<and> onBeforeUnmount s
       = s\<lparr>heap := heap (onBeforeUnmount s), conns := conns (onBeforeUnmount s)\<rparr>"
proof -
  have h: "handles (onBeforeUnmount s) = handles s"
    by (simp add: onBeforeUnmount_eq handles_def)
  have c: "{e \<in> {e \<in> conns s. Some (fst e) \<notin> set (handles s)}. Some (fst e) \<notin> set (handles s)}
         = {e \<in> conns s. Some (fst e) \<notin> set (handles s)}" by auto
  have i: "onBeforeUnmount (onBeforeUnmount s) = onBeforeUnmount s"
    by (subst onBeforeUnmount_eq [of "onBeforeUnmount s"])
       (simp add: h, simp add: onBeforeUnmount_eq disposed_heap_idem c)
  have l: "live (onBeforeUnmount s) = live s - owned s"
    by (auto simp: onBeforeUnmount_eq live_alive owned_def)
  have e: "{e \<in> conns (onBeforeUnmount s). fst e \<in> owned s} = {}"
    by (auto simp: onBeforeUnmount_eq owned_def)
  have f: "onBeforeUnmount s
       = s\<lparr>heap := heap (onBeforeUnmount s), conns := conns (onBeforeUnmount s)\<rparr>"
    by (simp add: onBeforeUnmount_eq)
  from i h l e f show ?thesis by blast
qed

subsection \<open>The reconnect variant keeps its nodes\<close>

lemma createAudioNodes_handles:
  "handles (createAudioNodes s) = map Some [nextId s, Suc (Suc (Suc (Suc (nextId s)))), Suc (Suc (Suc (Suc (Suc (nextId s))))), Suc (Suc (Suc (Suc (Suc (Suc (nextId s)))))), Suc (Suc (Suc (Suc (Suc (Suc (Suc (nextId s))))))), Suc (Suc (Suc (Suc (Suc (Suc (Suc (Suc (nextId s)))))))), Suc (Suc (Suc (Suc (Suc (Suc (Suc (Suc (Suc (nextId s))))))))), Suc (Suc (Suc (Suc (Suc (Suc (Suc (Suc (Suc (Suc (nextId s)))))))))), Suc (Suc (Suc (Suc (Suc (Suc (Suc (Suc (Suc (Suc (Suc (nextId s))))))))))), Suc (nextId s), Suc (Suc (nextId s)), Suc (Suc (Suc (nextId s)))]"
  by (subst createAudioNodes_frame) (simp add: handles_def)

lemma createAudioNodes_conns: "conns (createAudioNodes s) = conns s"
  by (subst createAudioNodes_frame) simp


lemma ready_createAudioNodes: "conns s = {} \<Longrightarrow> ready (createAudioNodes s)"
  by (simp add: ready_def createAudioNodes_handles createAudioNodes_conns)

lemma ready_handles:
  assumes "ready s"
  obtains a p g m where "synth s = Some a" "panner s = Some p" "gainNode s = Some g"
    "meter s = Some m"
proof -
  from assms have n: "None \<notin> set (handles s)" by (simp add: ready_def)
  have "synth s \<in> set (handles s)" "panner s \<in> set (handles s)"
    "gainNode s \<in> set (handles s)" "meter s \<in> set (handles s)"
    by (simp_all add: handles_def)
  with n have "synth s \<noteq> None" "panner s \<noteq> None" "gainNode s \<noteq> None" "meter s \<noteq> None"
    by metis+
  then show ?thesis using that by auto
qed

lemma series_sources: "fst ` series xs \<subseteq> set (butlast xs)"
proof (induction xs)
  case Nil
  show ?case by simp
next
  case (Cons a xs)
  then show ?case by (cases xs) auto
qed

lemma active_nodes_eq:
  "active_nodes s =
     node_list (filterEnabled s) (filter_node s) @ node_list (distortionEnabled s) (distortion s)
     @ node_list (bitCrusherEnabled s) (bitCrusher s) @ node_list (delayEnabled s) (delay s)
     @ node_list (chorusEnabled s) (chorus s) @ node_list (phaserEnabled s) (phaser s)
     @ node_list (reverbEnabled s) (reverb s) @ node_list (compressorEnabled s) (compressor s)"
  by (simp add: active_nodes_def canonical_order_def)

lemma set_node_list: "n \<in> set (node_list b h) \<Longrightarrow> h = Some n"
  unfolding node_list_def by (cases b; cases h; simp)

lemma butlast_handles:
  "butlast (handles s) =
     [synth s, filter_node s, distortion s, bitCrusher s, delay s, chorus s, phaser s,
      reverb s, compressor s, panner s, gainNode s]"
  by (simp add: handles_def)

lemma active_nodes_owned:
  "set (active_nodes s) \<subseteq> {n. Some n \<in> set (butlast (handles s))}"
  by (auto simp: active_nodes_eq butlast_handles dest: set_node_list)

lemma updateAudioChain_ready:
  assumes "ready s" "synth s = Some a" "panner s = Some p" "gainNode s = Some g"
    "meter s = Some m"
  shows "updateAudioChain s =
     Inr (s\<lparr>conns := series (a # active_nodes s @ [p, g])
                 \<union> {(g, ToNode m), (g, ToDestination)}\<rparr>)"
proof -
  have e: "{e \<in> conns s. Some (fst e) \<notin> set (butlast (handles s))} = {}"
    using assms(1) by (auto simp: ready_def)
  show ?thesis by (simp only: updateAudioChain_eq [OF assms(2-5)] e Un_empty_left)
qed

lemma updateAudioChain_frame:
  assumes "updateAudioChain s = Inr s'"
  shows "s' = s\<lparr>conns := conns s'\<rparr>"
proof (cases "synth s = None \<or> panner s = None \<or> gainNode s = None")
  case True
  from updateAudioChain_early [OF True] assms show ?thesis by simp
next
  case False
  then obtain a p g where h: "synth s = Some a" "panner s = Some p" "gainNode s = Some g"
    by auto
  show ?thesis
  proof (cases "meter s")
    case None
    from updateAudioChain_no_meter [OF h None] assms show ?thesis by simp
  next
    case (Some m)
    from updateAudioChain_eq [OF h Some] assms show ?thesis by auto
  qed
qed

lemma assign_enabled_graph [simp]:
  "handles (assign_enabled k b s) = handles s"
  "conns (assign_enabled k b s) = conns s"
  "heap (assign_enabled k b s) = heap s"
  "nextId (assign_enabled k b s) = nextId s"
  by (cases k; simp add: handles_def)+

lemma ready_assign_enabled [simp]: "ready (assign_enabled k b s) = ready s"
  by (simp add: ready_def)

lemma ready_conns_update:
  assumes "ready s" "fst ` C \<subseteq> {n. Some n \<in> set (butlast (handles s))}"
  shows "ready (s\<lparr>conns := C\<rparr>)"
  using assms by (simp add: ready_def)

lemma ready_heap_update [simp]: "ready (s\<lparr>heap := H\<rparr>) = ready s"
  by (simp add: ready_def)

lemma ready_watchProps [simp]: "ready (watchProps k s) = ready s"
proof (cases "node_of s k")
  case None
  then show ?thesis by (simp add: watchProps_None)
next
  case (Some n)
  then show ?thesis by (simp add: watchProps_Some)
qed

lemma updateAudioChain_keeps_ready:
  assumes "ready s"
  obtains s' where "updateAudioChain s = Inr s'" "ready s'"
proof -
  from assms obtain a p g m where h: "synth s = Some a" "panner s = Some p"
    "gainNode s = Some g" "meter s = Some m" by (rule ready_handles)
  let ?C = "series (a # active_nodes s @ [p, g]) \<union> {(g, ToNode m), (g, ToDestination)}"
  have src: "fst ` ?C \<subseteq> {n. Some n \<in> set (butlast (handles s))}"
  proof -
    have "fst ` series (a # active_nodes s @ [p, g]) \<subseteq> set (butlast (a # active_nodes s @ [p, g]))"
      by (rule series_sources)
    also have "\<dots> = insert a (set (active_nodes s)) \<union> {p}"
      by (auto simp: butlast_append)
    also have "\<dots> \<subseteq> {n. Some n \<in> set (butlast (handles s))}"
      using active_nodes_owned [of s] h by (auto simp: handles_def)
    finally have 1: "fst ` series (a # active_nodes s @ [p, g])
        \<subseteq> {n. Some n \<in> set (butlast (handles s))}" .
    have 2: "g \<in> {n. Some n \<in> set (butlast (handles s))}" using h by (simp add: handles_def)
    from 1 2 show ?thesis by auto
  qed
  from updateAudioChain_ready [OF assms h] ready_conns_update [OF assms src]
  show ?thesis using that by blast
qed

lemma setEnabled_reconnect_keeps_ready:
  assumes "ready s"
  obtains t where "setEnabled_reconnect k b s = Inr t" "ready t"
proof -
  have "ready (assign_enabled k b s)" using assms by simp
  then obtain s' where u: "updateAudioChain (assign_enabled k b s) = Inr s'" "ready s'"
    by (rule updateAudioChain_keeps_ready)
  then have "setEnabled_reconnect k b s = Inr (watchProps k s')" "ready (watchProps k s')"
    by (simp_all add: setEnabled_reconnect_def)
  then show ?thesis using that by blast
qed

lemma toggles_total: "ready s \<Longrightarrow> \<exists>t. toggles ts s = Inr t \<and> ready t"
proof (induction ts arbitrary: s)
  case Nil
  then show ?case by simp
next
  case (Cons x ts)
  obtain k b where x: "x = (k, b)" by (cases x)
  from Cons.prems obtain s' where s': "setEnabled_reconnect k b s = Inr s'" "ready s'"
    by (rule setEnabled_reconnect_keeps_ready)
  from Cons.IH [OF s'(2)] s'(1) x show ?case by simp
qed

lemma setEnabled_reconnect_frame:
  assumes "setEnabled_reconnect k b s = Inr t"
  shows "handles t = handles s \<and> nextId t = nextId s \<and> live t = live s
       \<and> dom (heap t) = dom (heap s)"
proof -
  from assms obtain s' where u: "updateAudioChain (assign_enabled k b s) = Inr s'"
    and t: "t = watchProps k s'"
    by (auto simp: setEnabled_reconnect_def split: sum.splits)
  from updateAudioChain_frame [OF u]
  have f: "s' = (assign_enabled k b s)\<lparr>conns := conns s'\<rparr>" .
  have a: "handles s' = handles s \<and> nextId s' = nextId s \<and> heap s' = heap s"
    by (subst f, simp)+
  have b: "handles (watchProps k s') = handles s' \<and> nextId (watchProps k s') = nextId s'
    \<and> live (watchProps k s') = live s' \<and> dom (heap (watchProps k s')) = dom (heap s')"
  proof (cases "node_of s' k")
    case None
    then show ?thesis by (simp add: watchProps_None)
  next
    case (Some n)
    then show ?thesis
      by (auto simp: watchProps_Some live_alive dom_def upd_fields_dom)
  qed
  from a b t show ?thesis by (simp add: live_alive)
qed

lemma toggles_frame:
  "toggles ts s = Inr t \<Longrightarrow>
   handles t = handles s \<and> nextId t = nextId s \<and> live t = live s
   \<and> dom (heap t) = dom (heap s)"
proof (induction ts arbitrary: s)
  case Nil
  then show ?case by simp
next
  case (Cons x ts)
  obtain k b where x: "x = (k, b)" by (cases x)
  from Cons.prems x obtain s' where s': "setEnabled_reconnect k b s = Inr s'"
    "toggles ts s' = Inr t"
    by (auto split: sum.splits)
  from Cons.IH [OF s'(2)] setEnabled_reconnect_frame [OF s'(1)] show ?case by simp
qed

text \<open>
  C10. In the reconnect variant a rebuild constructs and disposes nothing:
  \<open>updateAudioChain\<close> changes the connections only, so the node variables, every node with
  its parameters and the counter of constructed nodes are the same after it. After any
  sequence of toggles the variables hold the same nodes, the same nodes exist and the
  same nodes are live. From a state with the twelve nodes in place neither the rebuild nor
  a sequence of toggles fails.
\<close>

theorem reconnect_reuses_nodes:
  "(\<forall>s'. updateAudioChain s = Inr s' \<longrightarrow>
       handles s' = handles s \<and> heap s' = heap s \<and> nextId s' = nextId s
       \<and> live s' = live s \<and> s' = s\<lparr>conns := conns s'\<rparr>)
   \<and> (\<forall>t. toggles ts s = Inr t \<longrightarrow>
       handles t = handles s \<and> nextId t = nextId s \<and> live t = live s
       \<and> dom (heap t) = dom (heap s))
   \<and> (ready s \<longrightarrow> (\<exists>s'. updateAudioChain s = Inr s') \<and> (\<exists>t. toggles ts s = Inr t))"
proof -
  have a: "handles s' = handles s \<and> heap s' = heap s \<and> nextId s' = nextId s
       \<and> live s' = live s \<and> s' = s\<lparr>conns := conns s'\<rparr>"
    if u: "updateAudioChain s = Inr s'" for s'
  proof -
    from updateAudioChain_frame [OF u] have f: "s' = s\<lparr>conns := conns s'\<rparr>" .
    have "handles s' = handles s \<and> heap s' = heap s \<and> nextId s' = nextId s"
      by (subst f, simp)+
    then show ?thesis using f by (simp add: live_def)
  qed
  have c: "(\<exists>s'. updateAudioChain s = Inr s') \<and> (\<exists>t. toggles ts s = Inr t)" if r: "ready s"
    using updateAudioChain_keeps_ready [OF r] toggles_total [OF r] by blast
  from a toggles_frame c show ?thesis by blast
qed

theorem reconnect_reuses_nodes_witness:
  "ready (createAudioNodes init_reconnect)
   \<and> (\<exists>t. toggles [(FilterK, True), (ReverbK, True), (FilterK, False)]
            (createAudioNodes init_reconnect) = Inr t
          \<and> handles t = handles (createAudioNodes init_reconnect)
          \<and> live t = live (createAudioNodes init_reconnect)
          \<and> nextId t = 12)"
proof -
  have c: "conns init_reconnect = {}" by (simp add: init_reconnect_def init_recreate_def)
  have r: "ready (createAudioNodes init_reconnect)" by (rule ready_createAudioNodes [OF c])
  have n: "nextId (createAudioNodes init_reconnect) = 12"
    by (subst createAudioNodes_frame) (simp add: init_reconnect_def init_recreate_def)
  from reconnect_reuses_nodes
         [of "createAudioNodes init_reconnect" "[(FilterK, True), (ReverbK, True), (FilterK, False)]"]
       r n
  show ?thesis by auto
qed






lemma initializeAudioChain_node_of:
  "node_of (initializeAudioChain s) FilterK = Some (Suc (nextId s))"
  "node_of (initializeAudioChain s) DistortionK = Some (Suc (Suc (nextId s)))"
  "node_of (initializeAudioChain s) BitCrusherK = Some (Suc (Suc (Suc (nextId s))))"
  "node_of (initializeAudioChain s) DelayK = Some (Suc (Suc (Suc (Suc (nextId s)))))"
  "node_of (initializeAudioChain s) ChorusK = Some (Suc (Suc (Suc (Suc (Suc (nextId s))))))"
  "node_of (initializeAudioChain s) PhaserK = Some (Suc (Suc (Suc (Suc (Suc (Suc (nextId s)))))))"
  "node_of (initializeAudioChain s) ReverbK =
     Some (Suc (Suc (Suc (Suc (Suc (Suc (Suc (nextId s))))))))"
  "node_of (initializeAudioChain s) CompressorK =
     Some (Suc (Suc (Suc (Suc (Suc (Suc (Suc (Suc (nextId s)))))))))"
  using initializeAudioChain_handles [of s] by (simp_all add: handles_def)



lemma touched_Un: "touched (A \<union> B) = touched A \<union> touched B"
  by (auto simp: touched_def)

lemma touched_series: "touched (series xs) \<subseteq> set xs"
proof (induction xs)
  case Nil
  show ?case by (simp add: touched_def)
next
  case (Cons a xs)
  then show ?case by (cases xs) (auto simp: touched_def)
qed

lemma touched_fan: "touched {(g, ToNode m), (g, ToDestination)} = {g, m}"
  by (auto simp: touched_def)

lemma node_list_mem: "n \<in> set (node_list b h) \<Longrightarrow> b \<and> h = Some n"
  by (cases b; cases h; simp add: node_list_def)

lemma active_nodes_mem:
  "n \<in> set (active_nodes s) \<Longrightarrow> \<exists>k. enabled_of s k \<and> node_of s k = Some n"
  unfolding active_nodes_def by (auto dest!: node_list_mem)

lemma distinct_node_of:
  "distinct (handles s) \<Longrightarrow> node_of s k = Some n \<Longrightarrow> node_of s k' = Some n \<Longrightarrow> k = k'"
  by (cases k; cases k'; simp add: handles_def)

lemma distinct_node_fixed:
  "distinct (handles s) \<Longrightarrow> node_of s k = Some n \<Longrightarrow>
   synth s \<noteq> Some n \<and> panner s \<noteq> Some n \<and> gainNode s \<noteq> Some n \<and> meter s \<noteq> Some n"
  by (cases k; auto simp: handles_def)

lemma disabled_untouched:
  assumes "distinct (handles s)" "node_of s k = Some n" "\<not> enabled_of s k"
  shows "n \<notin> touched (topology s)"
proof
  assume t: "n \<in> touched (topology s)"
  have "topology s \<noteq> {}" using t by (auto simp: touched_def)
  then obtain a p g m where h: "synth s = Some a" "panner s = Some p" "gainNode s = Some g"
    "meter s = Some m"
    by (cases "synth s"; cases "panner s"; cases "gainNode s"; cases "meter s";
        simp add: topology_def)
  from t h have "n \<in> touched (series (a # active_nodes s @ [p, g])
                    \<union> {(g, ToNode m), (g, ToDestination)})"
    by (simp add: topology_def)
  then have "n \<in> touched (series (a # active_nodes s @ [p, g])) \<union> {g, m}"
    unfolding touched_Un touched_fan .
  with touched_series [of "a # active_nodes s @ [p, g]"]
  consider "n \<in> {a, p, g, m}" | "n \<in> set (active_nodes s)" by auto
  then show False
  proof cases
    case 1
    with distinct_node_fixed [OF assms(1,2)] h show False by auto
  next
    case 2
    then obtain k' where "enabled_of s k'" "node_of s k' = Some n"
      using active_nodes_mem by blast
    with distinct_node_of [OF assms(1,2)] assms(3) show False by auto
  qed
qed

lemma enabled_of_initializeAudioChain:
  "enabled_of (initializeAudioChain s) k = enabled_of s k"
  by (cases k; subst initializeAudioChain_frame; simp)

lemma initializeAudioChain_fixed:
  "synth (initializeAudioChain s) = Some (nextId s)"
  "panner (initializeAudioChain s) =
     Some (Suc (Suc (Suc (Suc (Suc (Suc (Suc (Suc (Suc (nextId s))))))))))"
  "gainNode (initializeAudioChain s) =
     Some (Suc (Suc (Suc (Suc (Suc (Suc (Suc (Suc (Suc (Suc (nextId s)))))))))))"
  "meter (initializeAudioChain s) =
     Some (Suc (Suc (Suc (Suc (Suc (Suc (Suc (Suc (Suc (Suc (Suc (nextId s))))))))))))"
  using initializeAudioChain_handles [of s] by (simp_all add: handles_def)

lemma initializeAudioChain_active:
  "active_nodes (initializeAudioChain s) =
     node_list (filterEnabled s) (Some (Suc (nextId s)))
     @ node_list (distortionEnabled s) (Some (Suc (Suc (nextId s))))
     @ node_list (bitCrusherEnabled s) (Some (Suc (Suc (Suc (nextId s)))))
     @ node_list (delayEnabled s) (Some (Suc (Suc (Suc (Suc (nextId s))))))
     @ node_list (chorusEnabled s) (Some (Suc (Suc (Suc (Suc (Suc (nextId s)))))))
     @ node_list (phaserEnabled s) (Some (Suc (Suc (Suc (Suc (Suc (Suc (nextId s))))))))
     @ node_list (reverbEnabled s) (Some (Suc (Suc (Suc (Suc (Suc (Suc (Suc (nextId s)))))))))
     @ node_list (compressorEnabled s)
         (Some (Suc (Suc (Suc (Suc (Suc (Suc (Suc (Suc (nextId s))))))))))"
  unfolding active_nodes_def canonical_order_def
  by (simp add: enabled_of_initializeAudioChain [of s FilterK, simplified]
        enabled_of_initializeAudioChain [of s DistortionK, simplified]
        enabled_of_initializeAudioChain [of s BitCrusherK, simplified]
        enabled_of_initializeAudioChain [of s DelayK, simplified]
        enabled_of_initializeAudioChain [of s ChorusK, simplified]
        enabled_of_initializeAudioChain [of s PhaserK, simplified]
        enabled_of_initializeAudioChain [of s ReverbK, simplified]
        enabled_of_initializeAudioChain [of s CompressorK, simplified]
        initializeAudioChain_node_of [simplified])

lemma initializeAudioChain_topology:
  "conns (initializeAudioChain s) =
     {e \<in> conns s. Some (fst e) \<notin> set (handles s)} \<union> topology (initializeAudioChain s)"
  by (simp add: topology_def initializeAudioChain_fixed initializeAudioChain_active
        initializeAudioChain_conns)

lemma sources_owned_removed:
  "sources_owned s \<Longrightarrow> {e \<in> conns s. Some (fst e) \<notin> set (handles s)} = {}"
  by (auto simp: sources_owned_def owned_def)

lemma active_nodes_conns_update [simp]: "active_nodes (s\<lparr>conns := C\<rparr>) = active_nodes s"
  by (simp add: active_nodes_eq)

lemma topology_conns_update [simp]: "topology (s\<lparr>conns := C\<rparr>) = topology s"
  by (simp add: topology_def split: option.split)

lemma enabled_of_conns_update [simp]: "enabled_of (s\<lparr>conns := C\<rparr>) k = enabled_of s k"
  by (cases k) simp_all

lemma updateAudioChain_topology:
  assumes "ready s"
  shows "updateAudioChain s = Inr (s\<lparr>conns := topology s\<rparr>)"
proof -
  from assms obtain a p g m where h: "synth s = Some a" "panner s = Some p"
    "gainNode s = Some g" "meter s = Some m"
    by (rule ready_handles)
  show ?thesis
    by (simp add: updateAudioChain_ready [OF assms h] topology_def h)
qed

lemma node_of_handles: "handles t = handles s \<Longrightarrow> node_of t k = node_of s k"
  by (cases k) (simp_all add: handles_def)

lemma topology_cong:
  assumes "handles t = handles s" "\<forall>k. enabled_of t k = enabled_of s k"
  shows "topology t = topology s"
proof -
  have "active_nodes t = active_nodes s"
    unfolding active_nodes_def by (simp add: node_of_handles [OF assms(1)] assms(2))
  moreover have "synth t = synth s" "panner t = panner s" "gainNode t = gainNode s"
    "meter t = meter s"
    using assms(1) by (simp_all add: handles_def)
  ultimately show ?thesis unfolding topology_def by (simp only:)
qed

lemma createAudioNodes_topology:
  "topology (createAudioNodes s) =
     series (nextId s #
       (node_list (filterEnabled s) (Some (Suc (Suc (Suc (Suc (nextId s))))))
        @ node_list (distortionEnabled s) (Some (Suc (Suc (Suc (Suc (Suc (nextId s)))))))
        @ node_list (bitCrusherEnabled s) (Some (Suc (Suc (Suc (Suc (Suc (Suc (nextId s))))))))
        @ node_list (delayEnabled s) (Some (Suc (Suc (Suc (Suc (Suc (Suc (Suc (nextId s)))))))))
        @ node_list (chorusEnabled s)
            (Some (Suc (Suc (Suc (Suc (Suc (Suc (Suc (Suc (nextId s))))))))))
        @ node_list (phaserEnabled s)
            (Some (Suc (Suc (Suc (Suc (Suc (Suc (Suc (Suc (Suc (nextId s)))))))))))
        @ node_list (reverbEnabled s)
            (Some (Suc (Suc (Suc (Suc (Suc (Suc (Suc (Suc (Suc (Suc (nextId s))))))))))))
        @ node_list (compressorEnabled s)
            (Some (Suc (Suc (Suc (Suc (Suc (Suc (Suc (Suc (Suc (Suc (Suc (nextId s))))))))))))))
       @ [Suc (nextId s), Suc (Suc (nextId s))])
     \<union> {(Suc (Suc (nextId s)), ToNode (Suc (Suc (Suc (nextId s))))),
         (Suc (Suc (nextId s)), ToDestination)}"
  by (subst createAudioNodes_frame) (simp add: topology_def active_nodes_eq)

lemma init_flags:
  "nextId init_recreate = 0" "conns init_recreate = {}"
  "nextId init_reconnect = 0" "conns init_reconnect = {}"
  by (simp_all add: init_recreate_def init_reconnect_def)

lemma node_list_simps:
  "node_list False h = []" "node_list True (Some n) = [n]"
  by (simp_all add: node_list_def)

text \<open>
  C1, the claim as stated fails: the meter is not in series before the output. With no
  effect enabled the first build of the recreate variant connects the gain (node 10) to the
  meter (node 11) and to the destination, and nothing leaves the meter; the specification's
  series would connect the meter to the destination instead.
\<close>

theorem series_through_meter_counterexample:
  "conns (initializeAudioChain init_recreate)
     = {(0, ToNode 9), (9, ToNode 10), (10, ToNode 11), (10, ToDestination)}
   \<and> series_topology (initializeAudioChain init_recreate)
     = {(0, ToNode 9), (9, ToNode 10), (10, ToNode 11), (11, ToDestination)}
   \<and> (11, ToDestination) \<notin> conns (initializeAudioChain init_recreate)
   \<and> conns (initializeAudioChain init_recreate)
       \<noteq> series_topology (initializeAudioChain init_recreate)"
proof -
  have f: "filterEnabled init_recreate = False" "distortionEnabled init_recreate = False"
    "bitCrusherEnabled init_recreate = False" "delayEnabled init_recreate = False"
    "chorusEnabled init_recreate = False" "phaserEnabled init_recreate = False"
    "reverbEnabled init_recreate = False" "compressorEnabled init_recreate = False"
    by (simp_all add: init_recreate_def)
  have c: "conns (initializeAudioChain init_recreate)
     = {(0, ToNode 9), (9, ToNode 10), (10, ToNode 11), (10, ToDestination)}"
    by (auto simp: initializeAudioChain_conns f init_flags node_list_simps eval_nat_numeral)
  have t: "series_topology (initializeAudioChain init_recreate)
     = {(0, ToNode 9), (9, ToNode 10), (10, ToNode 11), (11, ToDestination)}"
    by (auto simp: series_topology_def initializeAudioChain_fixed initializeAudioChain_active
          f init_flags node_list_simps eval_nat_numeral)
  have n: "(11, ToDestination) \<notin> conns (initializeAudioChain init_recreate)"
    unfolding c by simp
  have m: "(11, ToDestination) \<in> series_topology (initializeAudioChain init_recreate)"
    unfolding t by simp
  from n m have "conns (initializeAudioChain init_recreate)
       \<noteq> series_topology (initializeAudioChain init_recreate)" by metis
  with c t n show ?thesis by simp
qed

text \<open>
  C1, amended (topology of a rebuild). In both variants a rebuild leaves exactly the
  connections of \<open>topology\<close>: the series from the synth through the nodes of the enabled
  kinds, in the fixed order filter, distortion, bitCrusher, delay, chorus, phaser, reverb,
  compressor, to the panner and the gain, and from the gain one connection to the meter and
  one to the destination. The rebuild does not change which kinds are enabled, and the node
  of a disabled kind is neither the source nor the target of any connection. The recreate
  variant needs every earlier connection to leave a node held by a variable; the reconnect
  variant needs the twelve variables to hold twelve different nodes, and then it does not
  throw.
\<close>

theorem rebuild_topology:
  assumes "sources_owned a" and "ready b"
  shows "conns (initializeAudioChain a) = topology (initializeAudioChain a)
     \<and> (\<forall>k. enabled_of (initializeAudioChain a) k = enabled_of a k)
     \<and> (\<forall>k n. node_of (initializeAudioChain a) k = Some n \<and> \<not> enabled_of a k \<longrightarrow>
            n \<notin> touched (conns (initializeAudioChain a)))
     \<and> (\<exists>b'. updateAudioChain b = Inr b' \<and> conns b' = topology b'
            \<and> handles b' = handles b
            \<and> (\<forall>k. enabled_of b' k = enabled_of b k)
            \<and> (\<forall>k n. node_of b' k = Some n \<and> \<not> enabled_of b k \<longrightarrow>
                   n \<notin> touched (conns b')))"
proof -
  let ?a = "initializeAudioChain a"
  have 1: "conns ?a = topology ?a"
    using initializeAudioChain_topology [of a] sources_owned_removed [OF assms(1)] by simp
  have d: "distinct (handles ?a)"
    by (simp add: initializeAudioChain_handles)
  have 3: "\<forall>k n. node_of ?a k = Some n \<and> \<not> enabled_of a k \<longrightarrow> n \<notin> touched (conns ?a)"
    unfolding 1 using disabled_untouched [OF d] enabled_of_initializeAudioChain by blast
  let ?b = "b\<lparr>conns := topology b\<rparr>"
  have db: "distinct (handles ?b)" using assms(2) by (simp add: ready_def)
  have nb: "node_of ?b k = node_of b k" for k by (cases k) simp_all
  have 4: "\<forall>k n. node_of ?b k = Some n \<and> \<not> enabled_of b k \<longrightarrow> n \<notin> touched (conns ?b)"
  proof (intro allI impI)
    fix k n assume "node_of ?b k = Some n \<and> \<not> enabled_of b k"
    then have "node_of ?b k = Some n" "\<not> enabled_of ?b k" by simp_all
    from disabled_untouched [OF db this] show "n \<notin> touched (conns ?b)" by simp
  qed
  have 5: "updateAudioChain b = Inr ?b" by (rule updateAudioChain_topology [OF assms(2)])
  have 6: "\<exists>b'. updateAudioChain b = Inr b' \<and> conns b' = topology b'
            \<and> handles b' = handles b
            \<and> (\<forall>k. enabled_of b' k = enabled_of b k)
            \<and> (\<forall>k n. node_of b' k = Some n \<and> \<not> enabled_of b k \<longrightarrow>
                   n \<notin> touched (conns b'))"
    using 4 5 by (intro exI [of _ ?b]) simp
  show ?thesis using 1 3 6 by (simp add: enabled_of_initializeAudioChain)
qed

theorem rebuild_topology_witness:
  "sources_owned (init_recreate\<lparr>filterEnabled := True, reverbEnabled := True\<rparr>)
   \<and> ready (createAudioNodes (init_reconnect\<lparr>filterEnabled := True, reverbEnabled := True\<rparr>))
   \<and> conns (initializeAudioChain (init_recreate\<lparr>filterEnabled := True, reverbEnabled := True\<rparr>))
       = {(0, ToNode 1), (1, ToNode 7), (7, ToNode 9), (9, ToNode 10), (10, ToNode 11),
          (10, ToDestination)}
   \<and> node_of (initializeAudioChain (init_recreate\<lparr>filterEnabled := True, reverbEnabled := True\<rparr>))
         DistortionK = Some 2
   \<and> 2 \<notin> touched (conns (initializeAudioChain
             (init_recreate\<lparr>filterEnabled := True, reverbEnabled := True\<rparr>)))
   \<and> (\<exists>b'. updateAudioChain
               (createAudioNodes (init_reconnect\<lparr>filterEnabled := True, reverbEnabled := True\<rparr>))
             = Inr b'
           \<and> conns b' = {(0, ToNode 4), (4, ToNode 10), (10, ToNode 1), (1, ToNode 2),
                         (2, ToNode 3), (2, ToDestination)})"
proof -
  let ?a = "init_recreate\<lparr>filterEnabled := True, reverbEnabled := True\<rparr>"
  let ?c = "init_reconnect\<lparr>filterEnabled := True, reverbEnabled := True\<rparr>"
  let ?b = "createAudioNodes ?c"
  have fa: "filterEnabled ?a = True" "distortionEnabled ?a = False"
    "bitCrusherEnabled ?a = False" "delayEnabled ?a = False"
    "chorusEnabled ?a = False" "phaserEnabled ?a = False"
    "reverbEnabled ?a = True" "compressorEnabled ?a = False" "nextId ?a = 0" "conns ?a = {}"
    by (simp_all add: init_recreate_def)
  have fb: "filterEnabled ?c = True" "distortionEnabled ?c = False"
    "bitCrusherEnabled ?c = False" "delayEnabled ?c = False"
    "chorusEnabled ?c = False" "phaserEnabled ?c = False"
    "reverbEnabled ?c = True" "compressorEnabled ?c = False" "nextId ?c = 0"
    "conns ?c = {}"
    by (simp_all add: init_recreate_def init_reconnect_def)
  have sa: "sources_owned ?a" by (simp add: sources_owned_def fa)
  have rb: "ready ?b" by (rule ready_createAudioNodes) (rule fb)
  have ta: "topology (initializeAudioChain ?a)
       = {(0, ToNode 1), (1, ToNode 7), (7, ToNode 9), (9, ToNode 10), (10, ToNode 11),
          (10, ToDestination)}"
    by (auto simp: topology_def initializeAudioChain_fixed initializeAudioChain_active
          fa node_list_simps eval_nat_numeral)
  have tb: "topology ?b = {(0, ToNode 4), (4, ToNode 10), (10, ToNode 1), (1, ToNode 2),
                         (2, ToNode 3), (2, ToDestination)}"
    by (auto simp: createAudioNodes_topology fb node_list_simps eval_nat_numeral)
  have na: "node_of (initializeAudioChain ?a) DistortionK = Some 2"
    using initializeAudioChain_node_of(2) [of ?a] by (simp add: fa eval_nat_numeral)
  have ea: "\<not> enabled_of ?a DistortionK" by (simp add: fa)
  note r = rebuild_topology [OF sa rb]
  note r1 = r [THEN conjunct1]
  note r3 = r [THEN conjunct2, THEN conjunct2, THEN conjunct1]
  note r4 = r [THEN conjunct2, THEN conjunct2, THEN conjunct2]
  have 1: "conns (initializeAudioChain ?a)
       = {(0, ToNode 1), (1, ToNode 7), (7, ToNode 9), (9, ToNode 10), (10, ToNode 11),
          (10, ToDestination)}"
    using r1 unfolding ta .
  have 2: "2 \<notin> touched (conns (initializeAudioChain ?a))"
    using r3 [THEN spec, THEN spec, THEN mp, OF conjI, OF na ea] .
  from r4 obtain b' where b: "updateAudioChain ?b = Inr b' \<and> conns b' = topology b'
            \<and> handles b' = handles ?b \<and> (\<forall>k. enabled_of b' k = enabled_of ?b k)
            \<and> (\<forall>k n. node_of b' k = Some n \<and> \<not> enabled_of ?b k \<longrightarrow>
                   n \<notin> touched (conns b'))" ..
  have "topology b' = topology ?b"
    using b [THEN conjunct2, THEN conjunct2, THEN conjunct1]
      b [THEN conjunct2, THEN conjunct2, THEN conjunct2, THEN conjunct1]
    by (rule topology_cong)
  with b [THEN conjunct2, THEN conjunct1]
  have "conns b' = {(0, ToNode 4), (4, ToNode 10), (10, ToNode 1), (1, ToNode 2),
                         (2, ToNode 3), (2, ToDestination)}"
    unfolding tb by (rule trans)
  with b [THEN conjunct1]
  have 3: "\<exists>b'. updateAudioChain ?b = Inr b'
           \<and> conns b' = {(0, ToNode 4), (4, ToNode 10), (10, ToNode 1), (1, ToNode 2),
                         (2, ToNode 3), (2, ToDestination)}"
    by (intro exI conjI)
  show ?thesis
    by (intro conjI) (rule sa rb 1 na 2 3)+
qed

lemma nextId_initializeAudioChain:
  "nextId (initializeAudioChain s) = nextId s + 12"
  by (subst initializeAudioChain_frame) simp

lemma live_disposeNodes: "live (disposeNodes s) = live s - owned s"
  by (auto simp: live_alive disposeNodes_eq owned_def)

lemma live_empty_heap: "heap s = Map.empty \<Longrightarrow> live s = {}"
  by (simp add: live_alive)

text \<open>
  C2, the claim as stated fails for the reconnect variant: its rebuild disposes nothing and
  constructs nothing. After the mount (\<open>createAudioNodes\<close>, then \<open>updateAudioChain\<close>) the
  synth is node 0 and live; a rebuild (\<open>updateAudioChain\<close> again) returns the same state, in
  which node 0, constructed before the rebuild, is still live and still the synth.
\<close>

theorem rebuild_keeps_nodes_counterexample:
  "updateAudioChain (createAudioNodes init_reconnect)
     = Inr ((createAudioNodes init_reconnect)
              \<lparr>conns := {(0, ToNode 1), (1, ToNode 2), (2, ToNode 3), (2, ToDestination)}\<rparr>)
   \<and> updateAudioChain ((createAudioNodes init_reconnect)
              \<lparr>conns := {(0, ToNode 1), (1, ToNode 2), (2, ToNode 3), (2, ToDestination)}\<rparr>)
     = Inr ((createAudioNodes init_reconnect)
              \<lparr>conns := {(0, ToNode 1), (1, ToNode 2), (2, ToNode 3), (2, ToDestination)}\<rparr>)
   \<and> synth ((createAudioNodes init_reconnect)
              \<lparr>conns := {(0, ToNode 1), (1, ToNode 2), (2, ToNode 3), (2, ToDestination)}\<rparr>)
     = Some 0
   \<and> 0 \<in> live ((createAudioNodes init_reconnect)
              \<lparr>conns := {(0, ToNode 1), (1, ToNode 2), (2, ToNode 3), (2, ToDestination)}\<rparr>)"
proof -
  let ?x = "createAudioNodes init_reconnect"
  have f: "filterEnabled init_reconnect = False" "distortionEnabled init_reconnect = False"
    "bitCrusherEnabled init_reconnect = False" "delayEnabled init_reconnect = False"
    "chorusEnabled init_reconnect = False" "phaserEnabled init_reconnect = False"
    "reverbEnabled init_reconnect = False" "compressorEnabled init_reconnect = False"
    by (simp_all add: init_recreate_def init_reconnect_def)
  have t: "topology ?x = {(0, ToNode 1), (1, ToNode 2), (2, ToNode 3), (2, ToDestination)}"
    by (auto simp: createAudioNodes_topology f init_flags node_list_simps eval_nat_numeral)
  have r: "ready ?x" by (rule ready_createAudioNodes) (rule init_flags)
  have 1: "updateAudioChain ?x = Inr (?x\<lparr>conns := topology ?x\<rparr>)"
    by (rule updateAudioChain_topology [OF r])
  obtain s' where s: "updateAudioChain ?x = Inr s'" "ready s'"
    using r by (rule updateAudioChain_keeps_ready)
  from s(1) 1 have "s' = ?x\<lparr>conns := topology ?x\<rparr>" by simp
  with s(2) have r': "ready (?x\<lparr>conns := topology ?x\<rparr>)" by simp
  have 2: "updateAudioChain (?x\<lparr>conns := topology ?x\<rparr>) = Inr (?x\<lparr>conns := topology ?x\<rparr>)"
    using updateAudioChain_topology [OF r'] by simp
  have 3: "synth (?x\<lparr>conns := topology ?x\<rparr>) = Some 0"
    using createAudioNodes_handles [of init_reconnect] by (simp add: handles_def init_flags)
  have "alive (heap ?x 0)" by (simp add: createAudioNodes_alive fresh_ids_def init_flags)
  then have 4: "0 \<in> live (?x\<lparr>conns := topology ?x\<rparr>)" by (simp add: live_alive)
  show ?thesis using 1 2 3 4 unfolding t by (intro conjI)
qed

text \<open>
  C2, amended (the recreate variant disposes before it constructs). \<open>initializeAudioChain\<close>
  is the disposal block followed by the construction block and the connection block.
  Provided every live node is held by a variable and the variables hold nodes constructed
  earlier, no node is live after the disposal block; after the rebuild the twelve variables
  hold twelve different nodes, exactly these are live, and none of them was held by a
  variable before the rebuild. The two provisions hold again after the rebuild.
\<close>

theorem recreate_disposes_then_constructs:
  assumes "live s \<subseteq> owned s" and "owned s \<subseteq> {..<nextId s}"
  shows "initializeAudioChain s
           = (let t = disposeNodes s; (ns, u) = constructNodes t in connectNodes ns u)
     \<and> live (disposeNodes s) = {}
     \<and> live (initializeAudioChain s) = owned (initializeAudioChain s)
     \<and> None \<notin> set (handles (initializeAudioChain s))
     \<and> distinct (handles (initializeAudioChain s))
     \<and> length (handles (initializeAudioChain s)) = 12
     \<and> live (initializeAudioChain s) \<inter> owned s = {}
     \<and> owned (initializeAudioChain s) \<subseteq> {..<nextId (initializeAudioChain s)}"
proof -
  have 1: "live (disposeNodes s) = {}"
    using assms(1) by (simp add: live_disposeNodes)
  have 2: "live (initializeAudioChain s) = fresh_ids s"
    using assms(1) by (auto simp: initializeAudioChain_live)
  have 3: "fresh_ids s \<inter> owned s = {}"
    using assms(2) by (auto simp: fresh_ids_def)
  have 4: "fresh_ids s \<subseteq> {..<nextId s + 12}"
    by (auto simp: fresh_ids_def)
  have 5: "None \<notin> set (handles (initializeAudioChain s))"
    "distinct (handles (initializeAudioChain s))"
    "length (handles (initializeAudioChain s)) = 12"
    by (simp_all add: initializeAudioChain_handles)
  have 6: "initializeAudioChain s
           = (let t = disposeNodes s; (ns, u) = constructNodes t in connectNodes ns u)"
    by (simp add: initializeAudioChain_def)
  have 7: "live (initializeAudioChain s) \<inter> owned s = {}"
    unfolding 2 by (rule 3)
  show ?thesis
    unfolding initializeAudioChain_owned nextId_initializeAudioChain
    by (intro conjI) (rule 6 1 2 5 7 4)+
qed

theorem recreate_disposes_then_constructs_witness:
  "live (initializeAudioChain init_recreate) \<subseteq> owned (initializeAudioChain init_recreate)
   \<and> owned (initializeAudioChain init_recreate)
       \<subseteq> {..<nextId (initializeAudioChain init_recreate)}
   \<and> live (initializeAudioChain init_recreate) = {m. 0 \<le> m \<and> m < 12}
   \<and> live (disposeNodes (initializeAudioChain init_recreate)) = {}
   \<and> live (initializeAudioChain (initializeAudioChain init_recreate))
       = {m. 12 \<le> m \<and> m < 24}
   \<and> owned (initializeAudioChain (initializeAudioChain init_recreate))
       = {m. 12 \<le> m \<and> m < 24}
   \<and> distinct (handles (initializeAudioChain (initializeAudioChain init_recreate)))"
proof -
  let ?s = "initializeAudioChain init_recreate"
  have h: "heap init_recreate = Map.empty" by (simp add: init_recreate_def)
  have n: "nextId ?s = 12" by (simp add: nextId_initializeAudioChain init_flags)
  have l: "live ?s = {m. 0 \<le> m \<and> m < 12}"
    by (simp add: initializeAudioChain_live live_empty_heap [OF h] fresh_ids_def init_flags)
  have o: "owned ?s = {m. 0 \<le> m \<and> m < 12}"
    by (simp add: initializeAudioChain_owned fresh_ids_def init_flags)
  have a: "live ?s \<subseteq> owned ?s" unfolding l o by simp
  have b: "owned ?s \<subseteq> {..<nextId ?s}" unfolding o n by auto
  have o2: "owned (initializeAudioChain ?s) = {m. 12 \<le> m \<and> m < 24}"
    by (simp add: initializeAudioChain_owned fresh_ids_def n)
  note r = recreate_disposes_then_constructs [OF a b]
  have 1: "live (disposeNodes ?s) = {}"
    using r [THEN conjunct2, THEN conjunct1] .
  have 2: "live (initializeAudioChain ?s) = {m. 12 \<le> m \<and> m < 24}"
    using r [THEN conjunct2, THEN conjunct2, THEN conjunct1] unfolding o2 .
  have 3: "distinct (handles (initializeAudioChain ?s))"
    using r [THEN conjunct2, THEN conjunct2, THEN conjunct2, THEN conjunct2, THEN conjunct1] .
  show ?thesis by (intro conjI) (rule a b l 1 2 o2 3)+
qed


lemma wet_of_heap_update [simp]: "wet_of (s\<lparr>heap := H\<rparr>) k = wet_of s k"
  by (cases k) simp_all

lemma wet_of_conns_update [simp]: "wet_of (s\<lparr>conns := C\<rparr>) k = wet_of s k"
  by (cases k) simp_all

lemma wet_of_assign_enabled [simp]: "wet_of (assign_enabled k' e s) k = wet_of s k"
  by (cases k; cases k'; simp)



lemma wet_of_watch [simp]: "wet_of (watch u s) k = wet_of s k"
  by (cases "watched_node u s") (simp_all add: watch_None watch_Some)

lemma wet_of_watchProps [simp]: "wet_of (watchProps k' s) k = wet_of s k"
  by (cases "node_of s k'") (simp_all add: watchProps_None watchProps_Some)

lemma wet_of_initializeAudioChain [simp]:
  "wet_of (initializeAudioChain s) k = wet_of s k"
  by (cases k; subst initializeAudioChain_frame; simp)








lemma node_of_conns_update [simp]: "node_of (s\<lparr>conns := C\<rparr>) k = node_of s k"
  by (cases k) simp_all

lemma node_of_assign_enabled [simp]: "node_of (assign_enabled k' e s) k = node_of s k"
  by (rule node_of_handles) simp


lemma ready_assign_wet [simp]: "ready (assign_wet k v s) = ready s"
  by (cases k) (simp_all add: ready_def handles_def)

lemma nodes_exist_assign_wet [simp]: "nodes_exist (assign_wet k v s) = nodes_exist s"
  by (cases k) (simp_all add: nodes_exist_def owned_def handles_def)

lemma node_of_assign_wet [simp]: "node_of (assign_wet k' v s) k = node_of s k"
  by (cases k; cases k'; simp)

lemma nodes_exist_watchProps [simp]: "nodes_exist (watchProps k s) = nodes_exist s"
proof (cases "node_of s k")
  case None
  then show ?thesis by (simp add: watchProps_None)
next
  case (Some n)
  have "dom (upd_fields n (props_fields s k) (heap s)) = dom (heap s)"
    by (auto simp: dom_def upd_fields_dom)
  then show ?thesis
    by (simp add: watchProps_Some [OF Some] nodes_exist_def owned_def)
qed

lemma node_of_heap_update [simp]: "node_of (s\<lparr>heap := H\<rparr>) k = node_of s k"
  by (cases k) simp_all

lemma node_of_watchProps [simp]: "node_of (watchProps k' s) k = node_of s k"
  by (cases "node_of s k'") (simp_all add: watchProps_None watchProps_Some)




end
